theory Spec2Isabelle
  imports Complex_Main "HOL-Library.Sublist"
begin

section \<open>Python values and exceptions\<close>

text \<open>
  The values that \<^verbatim>\<open>json.loads\<close> produces and that a Pydantic schema validates: None, bool,
  int, float, str, list and dict. A \<^verbatim>\<open>str\<close> is a list of characters, one per code point
  (the code points that \<^typ>\<open>char\<close> covers); a dict is an association list in insertion
  order, read with \<open>map_of\<close> (a Python dict holds each key once). A float is the exact
  rational value of a finite double, or one of the two infinities; NaN is left out of the
  value domain.
\<close>

datatype pyfloat = Finite rat | PosInf | NegInf

datatype py =
    PNone
  | PBool bool
  | PInt int
  | PFloat pyfloat
  | PStr string
  | PList "py list"
  | PDict "(string \<times> py) list"

text \<open>
  The exceptions of class \<^verbatim>\<open>Exception\<close> that the code distinguishes, each with the text
  that \<^verbatim>\<open>str(e)\<close> gives: \<^verbatim>\<open>json.JSONDecodeError\<close>, \<^verbatim>\<open>pydantic.ValidationError\<close>, any
  other \<^verbatim>\<open>Exception\<close> (the timeouts, connection errors and \<^verbatim>\<open>ValueError\<close> that
  \<^verbatim>\<open>OllamaClient.generate\<close> documents), and the module's own
  \<^verbatim>\<open>StructuredGenerationError\<close> with its three attributes. \<open>BaseException\<close> stands for
  what is raised outside class \<^verbatim>\<open>Exception\<close> (\<^verbatim>\<open>KeyboardInterrupt\<close>, \<^verbatim>\<open>SystemExit\<close>): the
  clause \<^verbatim>\<open>except Exception\<close> does not catch it.
\<close>

datatype exn =
    JSONDecodeError (str_of: string)
  | ValidationError (str_of: string)
  | Exception (str_of: string)
  | StructuredGenerationError (str_of: string) (last_raw_output: string)
      (last_error: string) (attempts: int)
  | BaseException (str_of: string)

text \<open>\<^verbatim>\<open>isinstance(e, Exception)\<close>: what \<^verbatim>\<open>except Exception\<close> catches.\<close>

definition isinstance_Exception :: "exn \<Rightarrow> bool" where
  "isinstance_Exception e = (case e of BaseException m \<Rightarrow> False | _ \<Rightarrow> True)"

text \<open>\<^verbatim>\<open>str(n)\<close> for an int, used by the f-string of the final message.\<close>

fun str_nat :: "nat \<Rightarrow> string" where
  "str_nat n =
     (if n < 10 then [''0123456789'' ! n]
      else str_nat (n div 10) @ [''0123456789'' ! (n mod 10)])"

definition str_int :: "int \<Rightarrow> string" where
  "str_int i = (if i < 0 then CHR ''-'' # str_nat (nat (- i)) else str_nat (nat i))"

section \<open>The schema and the client, as \<^verbatim>\<open>generate_structured\<close> sees them\<close>

text \<open>
  \<^verbatim>\<open>generate_structured\<close> uses two operations of the schema class:
  \<^verbatim>\<open>model_json_schema()\<close>, which returns a dict or raises (Pydantic raises for a model with a
  field that has no JSON schema), and \<^verbatim>\<open>model_validate(data)\<close>, which returns the validated
  instance or raises.
\<close>

record 'obj schema =
  model_json_schema :: "exn + (string \<times> py) list"
  model_validate :: "py \<Rightarrow> exn + 'obj"

text \<open>
  The client is an object with state: \<^verbatim>\<open>client.generate(prompt)\<close> returns the text or raises,
  and leaves the client in a new state.
\<close>

type_synonym 's generate = "'s \<Rightarrow> string \<Rightarrow> (exn + string) \<times> 's"

section \<open>\<^verbatim>\<open>llm/generate.py\<close>\<close>

definition dict_get :: "(string \<times> py) list \<Rightarrow> string \<Rightarrow> py" where
  "dict_get d k = (case map_of d k of None \<Rightarrow> PNone | Some v \<Rightarrow> v)"

text \<open>\<^verbatim>\<open>d.get(k, default)\<close>.\<close>

definition dict_get_or :: "(string \<times> py) list \<Rightarrow> string \<Rightarrow> py \<Rightarrow> py" where
  "dict_get_or d k dflt = (case map_of d k of None \<Rightarrow> dflt | Some v \<Rightarrow> v)"

text \<open>\<^verbatim>\<open>type(v).__name__\<close>, and the \<^verbatim>\<open>AttributeError\<close> of a method that \<open>v\<close> does not have.\<close>

definition type_name :: "py \<Rightarrow> string" where
  "type_name v =
     (case v of PNone \<Rightarrow> ''NoneType'' | PBool b \<Rightarrow> ''bool'' | PInt n \<Rightarrow> ''int''
      | PFloat f \<Rightarrow> ''float'' | PStr s \<Rightarrow> ''str'' | PList xs \<Rightarrow> ''list'' | PDict d \<Rightarrow> ''dict'')"

definition AttributeError :: "py \<Rightarrow> string \<Rightarrow> exn" where
  "AttributeError v name =
     Exception ([CHR 0x27] @ type_name v @ [CHR 0x27] @ '' object has no attribute '' @
                [CHR 0x27] @ name @ [CHR 0x27])"

text \<open>
  The loop \<^verbatim>\<open>for k, v in props.items()\<close> of \<^verbatim>\<open>_schema_hint\<close>: \<^verbatim>\<open>v.get\<close> raises at the first
  property that is no dict.
\<close>

fun hint_properties :: "(string \<times> py) list \<Rightarrow> exn + (string \<times> py) list" where
  "hint_properties [] = Inr []"
| "hint_properties ((k, v) # rest) =
     (case v of
        PDict d \<Rightarrow>
          (case hint_properties rest of
             Inl e \<Rightarrow> Inl e
           | Inr hp \<Rightarrow>
               Inr ((k, PDict [(''type'', dict_get d ''type''),
                               (''description'', dict_get d ''description'')]) # hp))
      | _ \<Rightarrow> Inl (AttributeError v ''get''))"

text \<open>
  \<^verbatim>\<open>_schema_hint(schema)\<close>. An exception of \<^verbatim>\<open>schema.model_json_schema()\<close> is not caught here;
  \<^verbatim>\<open>props.items()\<close> raises when \<^verbatim>\<open>properties\<close> is no dict.
  \<^verbatim>\<open>json.dumps(hint, ensure_ascii=False, indent=2)\<close> is the standard library's, a parameter: it
  returns a text for every value of type \<^typ>\<open>py\<close>.
\<close>

definition schema_hint :: "(py \<Rightarrow> string) \<Rightarrow> 'obj schema \<Rightarrow> exn + string" where
  "schema_hint json_dumps schema =
     (case model_json_schema schema of
        Inl e \<Rightarrow> Inl e
      | Inr full \<Rightarrow>
          (case dict_get_or full ''properties'' (PDict []) of
             PDict props \<Rightarrow>
               (case hint_properties props of
                  Inl e \<Rightarrow> Inl e
                | Inr hp \<Rightarrow>
                    Inr (json_dumps (PDict
                      [(''type'', PStr ''object''),
                       (''required_keys'', dict_get_or full ''required'' (PList [])),
                       (''properties'', PDict hp)])))
           | v \<Rightarrow> Inl (AttributeError v ''items'')))"

definition rules :: string where
  "rules =
     ''RULES:\<newline>'' @
     ''1) Output ONLY valid JSON. No markdown. No explanation. No code fences.\<newline>'' @
     ''2) The JSON keys MUST match the schema exactly (no extra keys, no missing keys).\<newline>'' @
     ''3) Strings MUST be in double quotes.\<newline>'' @
     ''4) No trailing commas.\<newline>'' @
     ''5) If there is a confidence field, it MUST be a number between 0 and 1.\<newline>''"

text \<open>
  The text that both branches of \<^verbatim>\<open>_build_prompt\<close> begin with: the rules, an empty line, and
  the schema hint under its heading.
\<close>

definition prompt_head :: "string \<Rightarrow> string" where
  "prompt_head hint =
     rules @ ''\<newline>'' @ ''SCHEMA (follow this):\<newline>'' @ hint @ ''\<newline>\<newline>''"

text \<open>The two sentences that open the repair branch.\<close>

definition repair_intro :: string where
  "repair_intro =
     ''Your previous output was invalid JSON or did not match the schema.\<newline>'' @
     ''Repair it and output ONLY corrected JSON that matches the schema.\<newline>\<newline>''"

text \<open>\<^verbatim>\<open>previous_invalid or ''\<close>: None and the empty string both give the empty string.\<close>

definition or_empty :: "string option \<Rightarrow> string" where
  "or_empty previous_invalid = (case previous_invalid of None \<Rightarrow> [] | Some p \<Rightarrow> p)"

text \<open>
  \<^verbatim>\<open>_build_prompt(user_task, schema, previous_invalid=None, repair_mode=False)\<close>. The schema
  hint is computed first, in both modes: if that raises, no prompt is built and the
  exception leaves \<^verbatim>\<open>_build_prompt\<close>.
\<close>

definition build_prompt ::
  "(py \<Rightarrow> string) \<Rightarrow> string \<Rightarrow> 'obj schema \<Rightarrow> string option \<Rightarrow> bool \<Rightarrow> exn + string" where
  "build_prompt json_dumps user_task schema previous_invalid repair_mode =
     (case schema_hint json_dumps schema of
        Inl e \<Rightarrow> Inl e
      | Inr hint \<Rightarrow>
          (if \<not> repair_mode then
             Inr (prompt_head hint @ ''TASK:\<newline>'' @ user_task @ ''\<newline>'')
           else
             Inr (prompt_head hint @ repair_intro @
                  ''INVALID OUTPUT:\<newline>'' @ or_empty previous_invalid @ ''\<newline>'')))"

text \<open>The three local variables that the loop of \<^verbatim>\<open>generate_structured\<close> updates.\<close>

record 's loop_state =
  last_raw :: string
  last_err :: string
  client :: 's

text \<open>
  How one pass through the body of the loop ends: with \<^verbatim>\<open>return obj\<close>, with \<^verbatim>\<open>continue\<close>, or
  with an exception that nothing in \<^verbatim>\<open>generate_structured\<close> catches. Each carries the state
  of the client.
\<close>

datatype ('s, 'obj) step = Return 'obj 's | Continue "'s loop_state" | Raise exn 's

text \<open>
  The prompt of an attempt: the normal prompt for attempt 1, the repair prompt with
  \<^verbatim>\<open>previous_invalid=last_raw\<close> for every other attempt number.
\<close>

definition attempt_prompt ::
  "(py \<Rightarrow> string) \<Rightarrow> string \<Rightarrow> 'obj schema \<Rightarrow> int \<Rightarrow> string \<Rightarrow> exn + string" where
  "attempt_prompt json_dumps user_task schema attempt previous =
     (if attempt = 1 then build_prompt json_dumps user_task schema None False
      else build_prompt json_dumps user_task schema (Some previous) True)"

text \<open>
  One pass through the body of the \<^verbatim>\<open>for\<close> loop. The prompt is built before the \<^verbatim>\<open>try\<close>, so
  an exception of \<^verbatim>\<open>_build_prompt\<close> leaves the function. Inside the \<^verbatim>\<open>try\<close>, the inner
  \<^verbatim>\<open>except\<close> clauses catch \<^verbatim>\<open>JSONDecodeError\<close> from \<^verbatim>\<open>json.loads\<close> and \<^verbatim>\<open>ValidationError\<close> from
  \<^verbatim>\<open>model_validate\<close>; any other exception of the three calls reaches the outer
  \<^verbatim>\<open>except Exception\<close>, which catches it if it is an \<^verbatim>\<open>Exception\<close> and lets it pass if not.
  \<^verbatim>\<open>last_raw\<close> is assigned as soon as \<^verbatim>\<open>client.generate\<close> has returned. The calls of the
  logger and of the clock change nothing that the function returns or raises, and are left
  out.
\<close>

definition attempt_body ::
  "(py \<Rightarrow> string) \<Rightarrow> (string \<Rightarrow> exn + py) \<Rightarrow> 's generate \<Rightarrow> 'obj schema \<Rightarrow> string \<Rightarrow>
   int \<Rightarrow> 's loop_state \<Rightarrow> ('s, 'obj) step" where
  "attempt_body json_dumps json_loads generate schema user_task attempt st =
     (case attempt_prompt json_dumps user_task schema attempt (last_raw st) of
        Inl e \<Rightarrow> Raise e (client st)
      | Inr prompt \<Rightarrow>
          (case generate (client st) prompt of
             (Inl e, c) \<Rightarrow>
               if isinstance_Exception e
               then Continue (st\<lparr>last_err := ''Client/LLM error: '' @ str_of e, client := c\<rparr>)
               else Raise e c
           | (Inr raw, c) \<Rightarrow>
               (case json_loads raw of
                  Inl (JSONDecodeError m) \<Rightarrow>
                    Continue \<lparr>last_raw = raw, last_err = ''JSON parse error: '' @ m,
                              client = c\<rparr>
                | Inl e \<Rightarrow>
                    if isinstance_Exception e
                    then Continue \<lparr>last_raw = raw,
                                   last_err = ''Client/LLM error: '' @ str_of e, client = c\<rparr>
                    else Raise e c
                | Inr data \<Rightarrow>
                    (case model_validate schema data of
                       Inl (ValidationError m) \<Rightarrow>
                         Continue \<lparr>last_raw = raw,
                                   last_err = ''Schema validation error: '' @ m, client = c\<rparr>
                     | Inl e \<Rightarrow>
                         if isinstance_Exception e
                         then Continue \<lparr>last_raw = raw,
                                        last_err = ''Client/LLM error: '' @ str_of e,
                                        client = c\<rparr>
                         else Raise e c
                     | Inr obj \<Rightarrow> Return obj c))))"

text \<open>
  The \<^verbatim>\<open>for attempt in range(1, attempts_total + 1)\<close> loop over the attempt numbers that are
  left. \<open>Continue\<close> at the end is the state with which the loop is left when the range is
  used up.
\<close>

fun attempts_loop ::
  "(py \<Rightarrow> string) \<Rightarrow> (string \<Rightarrow> exn + py) \<Rightarrow> 's generate \<Rightarrow> 'obj schema \<Rightarrow> string \<Rightarrow>
   int list \<Rightarrow> 's loop_state \<Rightarrow> ('s, 'obj) step" where
  "attempts_loop json_dumps json_loads generate schema user_task [] st = Continue st"
| "attempts_loop json_dumps json_loads generate schema user_task (attempt # rest) st =
     (case attempt_body json_dumps json_loads generate schema user_task attempt st of
        Return obj c \<Rightarrow> Return obj c
      | Raise e c \<Rightarrow> Raise e c
      | Continue st' \<Rightarrow> attempts_loop json_dumps json_loads generate schema user_task rest st')"

text \<open>
  \<^verbatim>\<open>generate_structured(client=, schema=, user_task=, max_retries=)\<close>: the value returned or
  the exception raised, and the client's state afterwards. \<^verbatim>\<open>range(1, attempts_total + 1)\<close> is
  \<open>[1..attempts_total]\<close>, empty when \<open>attempts_total < 1\<close>.
\<close>

definition generate_structured ::
  "(py \<Rightarrow> string) \<Rightarrow> (string \<Rightarrow> exn + py) \<Rightarrow> 's generate \<Rightarrow> 's \<Rightarrow> 'obj schema \<Rightarrow> string \<Rightarrow>
   int \<Rightarrow> (exn + 'obj) \<times> 's" where
  "generate_structured json_dumps json_loads generate c schema user_task max_retries =
     (let attempts_total = 1 + max_retries
      in case attempts_loop json_dumps json_loads generate schema user_task [1..attempts_total]
                \<lparr>last_raw = [], last_err = [], client = c\<rparr> of
           Return obj c' \<Rightarrow> (Inr obj, c')
         | Raise e c' \<Rightarrow> (Inl e, c')
         | Continue st \<Rightarrow>
             (Inl (StructuredGenerationError
                     (''Failed to generate valid structured output after '' @
                      str_int attempts_total @ '' attempts'')
                     (last_raw st)
                     (if last_err st = [] then ''Unknown error'' else last_err st)
                     attempts_total),
              client st))"

section \<open>Observing the calls of the client\<close>

text \<open>
  A client that keeps a history of its calls, prompt and outcome, in the order they are made:
  any client can be wrapped so, and \<^verbatim>\<open>generate_structured\<close> cannot tell the difference.
\<close>

type_synonym call = "string \<times> (exn + string)"

definition recording :: "'s generate \<Rightarrow> ('s \<times> call list) generate" where
  "recording generate = (\<lambda>(s, hist) prompt.
     (case generate s prompt of (r, s') \<Rightarrow> (r, (s', hist @ [(prompt, r)]))))"

section \<open>\<^verbatim>\<open>llm/schema.py\<close>: the schema \<^verbatim>\<open>SimpleResult\<close>\<close>

text \<open>
  \<^verbatim>\<open>SimpleResult\<close> declares three required fields and no \<^verbatim>\<open>model_config\<close>, so Pydantic
  validates it with its defaults: lax mode (not strict) and \<^verbatim>\<open>extra = 'ignore'\<close>.
\<close>

record SimpleResult =
  title :: string
  items :: "string list"
  confidence :: pyfloat

text \<open>\<^verbatim>\<open>title: str\<close> with \<^verbatim>\<open>min_length=1, max_length=200\<close>: only a str is a str.\<close>

definition validate_title :: "py \<Rightarrow> string option" where
  "validate_title v =
     (case v of
        PStr s \<Rightarrow> if 1 \<le> length s \<and> length s \<le> 200 then Some s else None
      | _ \<Rightarrow> None)"

definition validate_item :: "py \<Rightarrow> string option" where
  "validate_item v = (case v of PStr s \<Rightarrow> Some s | _ \<Rightarrow> None)"

text \<open>
  \<^verbatim>\<open>items: list[str]\<close> with \<^verbatim>\<open>min_items=1, max_items=10\<close> (Pydantic 2 reads the two as
  \<^verbatim>\<open>min_length\<close> and \<^verbatim>\<open>max_length\<close>): a list whose elements are all strs.
\<close>

definition validate_items :: "py \<Rightarrow> string list option" where
  "validate_items v =
     (case v of
        PList xs \<Rightarrow>
          if list_all (\<lambda>x. validate_item x \<noteq> None) xs \<and> 1 \<le> length xs \<and> length xs \<le> 10
          then Some (map (\<lambda>x. the (validate_item x)) xs) else None
      | _ \<Rightarrow> None)"

text \<open>The constraints \<^verbatim>\<open>ge=0.0, le=1.0\<close>.\<close>

definition within_unit :: "pyfloat \<Rightarrow> bool" where
  "within_unit f = (case f of Finite q \<Rightarrow> 0 \<le> q \<and> q \<le> 1 | PosInf \<Rightarrow> False | NegInf \<Rightarrow> False)"

definition in_unit :: "pyfloat \<Rightarrow> pyfloat option" where
  "in_unit f = (if within_unit f then Some f else None)"

text \<open>
  \<^verbatim>\<open>confidence: float\<close> in lax mode: a float is taken as it is, an int is converted, a bool
  counts as 0.0 or 1.0, and a str is parsed as a number. The parser of numeric strings is
  Pydantic's, a parameter \<open>str_as_float\<close> here. The conversion of an int is exact for the
  ints that pass the constraints, and rounding does not change how any other int compares
  with 0.0 and 1.0.
\<close>

definition validate_confidence :: "(string \<Rightarrow> pyfloat option) \<Rightarrow> py \<Rightarrow> pyfloat option" where
  "validate_confidence str_as_float v =
     (case v of
        PFloat f \<Rightarrow> in_unit f
      | PInt n \<Rightarrow> in_unit (Finite (of_int n))
      | PBool b \<Rightarrow> in_unit (Finite (if b then 1 else 0))
      | PStr s \<Rightarrow> (case str_as_float s of Some f \<Rightarrow> in_unit f | None \<Rightarrow> None)
      | _ \<Rightarrow> None)"

text \<open>
  \<^verbatim>\<open>SimpleResult.model_validate(data)\<close>, as success or failure: the input is a dict, each
  declared field is present and valid; keys that are no field are not looked at.
\<close>

definition SimpleResult_validate :: "(string \<Rightarrow> pyfloat option) \<Rightarrow> py \<Rightarrow> SimpleResult option" where
  "SimpleResult_validate str_as_float data =
     (case data of
        PDict d \<Rightarrow>
          (case (map_of d ''title'', map_of d ''items'', map_of d ''confidence'') of
             (Some t, Some i, Some c) \<Rightarrow>
               (case (validate_title t, validate_items i, validate_confidence str_as_float c) of
                  (Some t', Some i', Some c') \<Rightarrow>
                    Some \<lparr>title = t', items = i', confidence = c'\<rparr>
                | _ \<Rightarrow> None)
           | _ \<Rightarrow> None)
      | _ \<Rightarrow> None)"



text \<open>
  The entries of \<^verbatim>\<open>SimpleResult.model_json_schema()\<close> that \<^verbatim>\<open>_schema_hint\<close> reads: the
  properties, with the \<^verbatim>\<open>type\<close> and the \<^verbatim>\<open>description\<close> of each declaration (\<open>CHR 0xE9\<close> is
  the e with acute accent), and the required keys.
\<close>

definition SimpleResult_json_schema :: "(string \<times> py) list" where
  "SimpleResult_json_schema =
     [(''properties'', PDict
        [(''title'', PDict
            [(''description'',
                PStr (''A short title or summary (e.g., 'Caf'' @ [CHR 0xE9] @
                      '' noise assessment')'')),
             (''type'', PStr ''string'')]),
         (''items'', PDict
            [(''description'', PStr ''A list of supporting points or observations''),
             (''type'', PStr ''array'')]),
         (''confidence'', PDict
            [(''description'', PStr ''Confidence level in the result (0.0 to 1.0)''),
             (''type'', PStr ''number'')])]),
      (''required'', PList [PStr ''title'', PStr ''items'', PStr ''confidence''])]"

text \<open>
  The class \<^verbatim>\<open>SimpleResult\<close> as a schema. \<open>error_text data\<close> is the text of the
  \<^verbatim>\<open>ValidationError\<close> that Pydantic raises for \<open>data\<close>.
\<close>

definition SimpleResult_schema ::
  "(string \<Rightarrow> pyfloat option) \<Rightarrow> (py \<Rightarrow> string) \<Rightarrow> SimpleResult schema" where
  "SimpleResult_schema str_as_float error_text =
     \<lparr>model_json_schema = Inr SimpleResult_json_schema,
      model_validate = (\<lambda>data.
        case SimpleResult_validate str_as_float data of
          Some x \<Rightarrow> Inr x
        | None \<Rightarrow> Inl (ValidationError (error_text data)))\<rparr>"

section \<open>Serialising and validating again\<close>





section \<open>\<^verbatim>\<open>tests/test_llm_schema_validation.py\<close>: the client of the tests\<close>

text \<open>
  \<^verbatim>\<open>FakeClient\<close> returns its outputs in order and counts its calls; \<^verbatim>\<open>self.outputs[self.calls]\<close>
  raises \<^verbatim>\<open>IndexError\<close> once the outputs are used up.
\<close>

record FakeClient =
  outputs :: "string list"
  calls :: nat

definition FakeClient_generate :: "FakeClient generate" where
  "FakeClient_generate self prompt =
     (if calls self < length (outputs self)
      then (Inr (outputs self ! calls self), self\<lparr>calls := calls self + 1\<rparr>)
      else (Inl (Exception ''list index out of range''), self))"

section \<open>Words of the specification, and the invariant of the loop\<close>

text \<open>
  An attempt succeeds when the client returns text that parses as JSON and validates
  against the schema; the value is then the validated instance.
\<close>

definition attempt_ok ::
  "(string \<Rightarrow> exn + py) \<Rightarrow> 'obj schema \<Rightarrow> exn + string \<Rightarrow> 'obj option" where
  "attempt_ok json_loads schema outcome =
     (case outcome of
        Inl e \<Rightarrow> None
      | Inr raw \<Rightarrow>
          (case json_loads raw of
             Inl e \<Rightarrow> None
           | Inr data \<Rightarrow>
               (case model_validate schema data of Inl e \<Rightarrow> None | Inr obj \<Rightarrow> Some obj)))"

text \<open>
  The raw text of the most recent call that returned, or the empty string if no call has
  returned yet.
\<close>

definition returned_raws :: "call list \<Rightarrow> string list" where
  "returned_raws hist =
     List.map_filter (\<lambda>c. case snd c of Inl e \<Rightarrow> None | Inr raw \<Rightarrow> Some raw) hist"

definition last_returned :: "call list \<Rightarrow> string" where
  "last_returned hist = (if returned_raws hist = [] then [] else last (returned_raws hist))"

text \<open>The reason that the loop records in \<^verbatim>\<open>last_err\<close> for an attempt that failed.\<close>

definition failure_reason ::
  "(string \<Rightarrow> exn + py) \<Rightarrow> 'obj schema \<Rightarrow> exn + string \<Rightarrow> string" where
  "failure_reason json_loads schema outcome =
     (case outcome of
        Inl e \<Rightarrow> ''Client/LLM error: '' @ str_of e
      | Inr raw \<Rightarrow>
          (case json_loads raw of
             Inl (JSONDecodeError m) \<Rightarrow> ''JSON parse error: '' @ m
           | Inl e \<Rightarrow> ''Client/LLM error: '' @ str_of e
           | Inr data \<Rightarrow>
               (case model_validate schema data of
                  Inl (ValidationError m) \<Rightarrow> ''Schema validation error: '' @ m
                | Inl e \<Rightarrow> ''Client/LLM error: '' @ str_of e
                | Inr obj \<Rightarrow> [])))"

text \<open>
  The exception with which an attempt leaves the loop: one that is no \<^verbatim>\<open>Exception\<close>, raised
  by the client, by \<^verbatim>\<open>json.loads\<close> or by \<^verbatim>\<open>model_validate\<close>.
\<close>

definition attempt_aborts ::
  "(string \<Rightarrow> exn + py) \<Rightarrow> 'obj schema \<Rightarrow> exn + string \<Rightarrow> exn option" where
  "attempt_aborts json_loads schema outcome =
     (case outcome of
        Inl e \<Rightarrow> if isinstance_Exception e then None else Some e
      | Inr raw \<Rightarrow>
          (case json_loads raw of
             Inl e \<Rightarrow> if isinstance_Exception e then None else Some e
           | Inr data \<Rightarrow>
               (case model_validate schema data of
                  Inl e \<Rightarrow> if isinstance_Exception e then None else Some e
                | Inr obj \<Rightarrow> None)))"

text \<open>
  Every call of a history belongs to an attempt that failed: it gave no result and its
  error was caught, so that the loop went on.
\<close>

definition failed :: "(string \<Rightarrow> exn + py) \<Rightarrow> 'obj schema \<Rightarrow> call list \<Rightarrow> bool" where
  "failed json_loads schema hist =
     list_all (\<lambda>c. attempt_ok json_loads schema (snd c) = None \<and>
                    attempt_aborts json_loads schema (snd c) = None) hist"

text \<open>
  The prompts of a history are those of attempts 1, 2, ... in order: the normal prompt
  first, then repair prompts, each carrying the raw text last returned before it.
\<close>

definition prompts_ok :: "(py \<Rightarrow> string) \<Rightarrow> string \<Rightarrow> 'obj schema \<Rightarrow> call list \<Rightarrow> bool" where
  "prompts_ok json_dumps user_task schema hist =
     (\<forall>i<length hist.
        attempt_prompt json_dumps user_task schema (int i + 1) (last_returned (take i hist)) =
          Inr (fst (hist ! i)))"

text \<open>
  The invariant of the loop, for a recording client, at the start of each pass: the history
  holds the attempts made so far, all failed; \<^verbatim>\<open>last_raw\<close> is the raw text last returned and
  \<^verbatim>\<open>last_err\<close> the reason of the last failure.
\<close>

definition loop_inv ::
  "(py \<Rightarrow> string) \<Rightarrow> (string \<Rightarrow> exn + py) \<Rightarrow> 'obj schema \<Rightarrow> string \<Rightarrow>
   ('s \<times> call list) loop_state \<Rightarrow> bool" where
  "loop_inv json_dumps json_loads schema user_task st =
     (last_raw st = last_returned (snd (client st)) \<and>
      last_err st =
        (if snd (client st) = [] then []
         else failure_reason json_loads schema (snd (last (snd (client st))))) \<and>
      prompts_ok json_dumps user_task schema (snd (client st)) \<and>
      failed json_loads schema (snd (client st)))"

text \<open>A history that ends with the attempt that succeeded with \<open>obj\<close>.\<close>

definition succeeded ::
  "(py \<Rightarrow> string) \<Rightarrow> (string \<Rightarrow> exn + py) \<Rightarrow> 'obj schema \<Rightarrow> string \<Rightarrow> call list \<Rightarrow> 'obj \<Rightarrow> bool"
  where
  "succeeded json_dumps json_loads schema user_task hist obj =
     (hist \<noteq> [] \<and>
      attempt_ok json_loads schema (snd (last hist)) = Some obj \<and>
      prompts_ok json_dumps user_task schema hist \<and>
      failed json_loads schema (butlast hist))"

text \<open>A history that ends with the attempt that left the loop with the exception \<open>e\<close>.\<close>

definition aborted ::
  "(py \<Rightarrow> string) \<Rightarrow> (string \<Rightarrow> exn + py) \<Rightarrow> 'obj schema \<Rightarrow> string \<Rightarrow> call list \<Rightarrow> exn \<Rightarrow> bool"
  where
  "aborted json_dumps json_loads schema user_task hist e =
     (hist \<noteq> [] \<and>
      attempt_aborts json_loads schema (snd (last hist)) = Some e \<and>
      prompts_ok json_dumps user_task schema hist \<and>
      failed json_loads schema (butlast hist))"

text \<open>The attempt numbers \<open>k + 1\<close>, \<open>k + 2\<close>, ... in order.\<close>

fun numbered :: "nat \<Rightarrow> int list \<Rightarrow> bool" where
  "numbered k [] = True"
| "numbered k (a # as) = (a = int k + 1 \<and> numbered (Suc k) as)"

text \<open>The Python type of a value.\<close>

datatype py_type = TNone | TBool | TInt | TFloat | TStr | TList | TDict

definition type_of :: "py \<Rightarrow> py_type" where
  "type_of v =
     (case v of PNone \<Rightarrow> TNone | PBool b \<Rightarrow> TBool | PInt n \<Rightarrow> TInt | PFloat f \<Rightarrow> TFloat
      | PStr s \<Rightarrow> TStr | PList xs \<Rightarrow> TList | PDict d \<Rightarrow> TDict)"

text \<open>A dict that lacks one of the three required fields.\<close>

definition missing_required :: "(string \<times> py) list \<Rightarrow> bool" where
  "missing_required d =
     (map_of d ''title'' = None \<or> map_of d ''items'' = None \<or> map_of d ''confidence'' = None)"

text \<open>
  A dict with a field of a type that its declaration does not take: a title that is no
  string, items that are no list or hold an element that is no string, a confidence that
  is null, a list, an object, or a string that does not read as a number.
\<close>

definition unaccepted_type :: "(string \<Rightarrow> pyfloat option) \<Rightarrow> (string \<times> py) list \<Rightarrow> bool" where
  "unaccepted_type str_as_float d =
     ((case map_of d ''title'' of Some t \<Rightarrow> type_of t \<noteq> TStr | None \<Rightarrow> False) \<or>
      (case map_of d ''items'' of
         Some (PList xs) \<Rightarrow> list_ex (\<lambda>x. type_of x \<noteq> TStr) xs
       | Some i \<Rightarrow> True
       | None \<Rightarrow> False) \<or>
      (case map_of d ''confidence'' of
         Some (PStr s) \<Rightarrow> str_as_float s = None
       | Some c \<Rightarrow> type_of c \<in> {TNone, TList, TDict}
       | None \<Rightarrow> False))"

text \<open>A dict whose confidence is a number, or a string that reads as one, outside 0 to 1.\<close>

definition out_of_range :: "(string \<Rightarrow> pyfloat option) \<Rightarrow> (string \<times> py) list \<Rightarrow> bool" where
  "out_of_range str_as_float d =
     (case map_of d ''confidence'' of
        Some (PFloat f) \<Rightarrow> \<not> within_unit f
      | Some (PInt n) \<Rightarrow> n < 0 \<or> 1 < n
      | Some (PStr s) \<Rightarrow> (case str_as_float s of Some f \<Rightarrow> \<not> within_unit f | None \<Rightarrow> False)
      | _ \<Rightarrow> False)"

text \<open>The doubles that Python reads the literals 0.8 and 0.5 as.\<close>

definition float_0_8 :: pyfloat where
  "float_0_8 = Finite (3602879701896397 / 4503599627370496)"

definition float_0_5 :: pyfloat where
  "float_0_5 = Finite (1 / 2)"

section \<open>Examples\<close>

text \<open>
  The valid output of the tests and the value that it denotes; a stand-in for \<^verbatim>\<open>json.loads\<close>
  that is right on this text and takes every other text for malformed; \<^verbatim>\<open>SimpleResult\<close> with a
  number parser that reads no string; the client of the first test and a client that
  always answers \<^verbatim>\<open>garbage\<close>.
\<close>

definition valid_output :: string where
  \<open>valid_output = ''{"title":"OK","items":["x","y","z"],"confidence":0.8}''\<close>

definition valid_data :: py where
  "valid_data =
     PDict [(''title'', PStr ''OK''),
            (''items'', PList [PStr ''x'', PStr ''y'', PStr ''z'']),
            (''confidence'', PFloat float_0_8)]"

definition example_loads :: "string \<Rightarrow> exn + py" where
  "example_loads raw =
     (if raw = valid_output then Inr valid_data else Inl (JSONDecodeError ''Expecting value''))"

definition example_schema :: "SimpleResult schema" where
  "example_schema = SimpleResult_schema (\<lambda>s. None) (\<lambda>data. ''invalid'')"

definition example_client :: FakeClient where
  "example_client = \<lparr>outputs = [''not json at all'', valid_output], calls = 0\<rparr>"

definition garbage_client :: "nat generate" where
  "garbage_client n prompt = (Inr ''garbage'', Suc n)"

text \<open>
  A schema that Pydantic cannot describe: \<^verbatim>\<open>SimpleResult\<close> with one more field of a type that
  has no JSON schema, so that \<^verbatim>\<open>model_json_schema()\<close> raises
  \<^verbatim>\<open>PydanticInvalidForJsonSchema\<close>. A client whose call is interrupted from the keyboard.
\<close>

definition undescribable_schema :: "SimpleResult schema" where
  "undescribable_schema =
     example_schema\<lparr>model_json_schema :=
       Inl (Exception ''Cannot generate a JsonSchema for core_schema.CallableSchema'')\<rparr>"

definition interrupted_client :: "nat generate" where
  "interrupted_client n prompt = (Inl (BaseException ''KeyboardInterrupt''), Suc n)"

section \<open>The loop with a recording client\<close>

lemma returned_raws_snoc:
  "returned_raws (h @ [(p, r)]) = returned_raws h @ (case r of Inl e \<Rightarrow> [] | Inr raw \<Rightarrow> [raw])"
  by (simp add: returned_raws_def map_filter_def split: sum.splits)

lemma last_returned_snoc:
  "last_returned (h @ [(p, r)]) = (case r of Inl e \<Rightarrow> last_returned h | Inr raw \<Rightarrow> raw)"
  by (simp add: last_returned_def returned_raws_snoc split: sum.splits)

lemma last_returned_Nil: "last_returned [] = []"
  by (simp add: last_returned_def returned_raws_def map_filter_def)

lemma attempt_aborts_SomeD:
  "attempt_aborts json_loads schema r = Some e \<Longrightarrow> \<not> isinstance_Exception e"
  by (auto simp: attempt_aborts_def split: sum.splits if_splits)

lemma attempt_ok_not_aborts:
  "attempt_ok json_loads schema r = Some obj \<Longrightarrow> attempt_aborts json_loads schema r = None"
  by (auto simp: attempt_ok_def attempt_aborts_def split: sum.splits)

lemma attempt_ok_SomeD:
  "attempt_ok json_loads schema r = Some obj \<Longrightarrow>
   \<exists>raw data. r = Inr raw \<and> json_loads raw = Inr data \<and> model_validate schema data = Inr obj"
  by (auto simp: attempt_ok_def split: sum.splits)

lemma failure_reason_nonempty:
  "attempt_ok json_loads schema r = None \<Longrightarrow> failure_reason json_loads schema r \<noteq> []"
  by (auto simp: attempt_ok_def failure_reason_def split: sum.splits exn.splits)

lemma attempt_prompt_Inl:
  "attempt_prompt json_dumps user_task schema attempt previous = Inl e \<longleftrightarrow>
   schema_hint json_dumps schema = Inl e"
  by (simp add: attempt_prompt_def build_prompt_def split: sum.splits)

text \<open>The body of the loop, by the outcome of the attempt.\<close>

lemma attempt_body_eq:
  "attempt_body json_dumps json_loads generate schema user_task attempt st =
     (case attempt_prompt json_dumps user_task schema attempt (last_raw st) of
        Inl e \<Rightarrow> Raise e (client st)
      | Inr p \<Rightarrow>
          (case generate (client st) p of
             (r, c) \<Rightarrow>
               (case attempt_ok json_loads schema r of
                  Some obj \<Rightarrow> Return obj c
                | None \<Rightarrow>
                    (case attempt_aborts json_loads schema r of
                       Some e \<Rightarrow> Raise e c
                     | None \<Rightarrow>
                         Continue \<lparr>last_raw = (case r of Inl e \<Rightarrow> last_raw st | Inr raw \<Rightarrow> raw),
                                   last_err = failure_reason json_loads schema r,
                                   client = c\<rparr>))))"
  by (cases st)
    (auto simp: attempt_body_def attempt_ok_def attempt_aborts_def failure_reason_def
      isinstance_Exception_def split: prod.splits sum.splits exn.splits)

lemma attempt_body_recording:
  "attempt_body json_dumps json_loads (recording generate) schema user_task attempt st =
     (case attempt_prompt json_dumps user_task schema attempt (last_raw st) of
        Inl e \<Rightarrow> Raise e (client st)
      | Inr p \<Rightarrow>
          (case generate (fst (client st)) p of
             (r, s') \<Rightarrow>
               (case attempt_ok json_loads schema r of
                  Some obj \<Rightarrow> Return obj (s', snd (client st) @ [(p, r)])
                | None \<Rightarrow>
                    (case attempt_aborts json_loads schema r of
                       Some e \<Rightarrow> Raise e (s', snd (client st) @ [(p, r)])
                     | None \<Rightarrow>
                         Continue \<lparr>last_raw = (case r of Inl e \<Rightarrow> last_raw st | Inr raw \<Rightarrow> raw),
                                   last_err = failure_reason json_loads schema r,
                                   client = (s', snd (client st) @ [(p, r)])\<rparr>))))"
  by (cases "client st")
    (simp add: attempt_body_eq recording_def split: sum.splits prod.splits option.splits)

lemma prompts_ok_snoc:
  "prompts_ok json_dumps user_task schema h \<Longrightarrow>
   attempt_prompt json_dumps user_task schema (int (length h) + 1) (last_returned h) = Inr p \<Longrightarrow>
   prompts_ok json_dumps user_task schema (h @ [(p, r)])"
  by (auto simp: prompts_ok_def nth_append less_Suc_eq)

lemma failed_snoc:
  "failed json_loads schema (h @ [c]) =
     (failed json_loads schema h \<and> attempt_ok json_loads schema (snd c) = None \<and>
      attempt_aborts json_loads schema (snd c) = None)"
  by (auto simp: failed_def)

lemma attempt_body_step:
  assumes inv: "loop_inv json_dumps json_loads schema user_task st"
    and a: "attempt = int (length (snd (client st))) + 1"
  shows "case attempt_body json_dumps json_loads (recording generate) schema user_task attempt st of
           Return obj c \<Rightarrow>
             succeeded json_dumps json_loads schema user_task (snd c) obj \<and>
             length (snd c) = Suc (length (snd (client st)))
         | Continue st' \<Rightarrow>
             loop_inv json_dumps json_loads schema user_task st' \<and>
             length (snd (client st')) = Suc (length (snd (client st))) \<and>
             (\<exists>hint. schema_hint json_dumps schema = Inr hint)
         | Raise e c \<Rightarrow>
             (schema_hint json_dumps schema = Inl e \<and> c = client st) \<or>
             (aborted json_dumps json_loads schema user_task (snd c) e \<and>
              length (snd c) = Suc (length (snd (client st))))"
proof (cases "attempt_prompt json_dumps user_task schema attempt (last_raw st)")
  case (Inl e)
  then have "schema_hint json_dumps schema = Inl e"
    by (simp add: attempt_prompt_Inl)
  with Inl show ?thesis
    by (simp add: attempt_body_recording)
next
  case (Inr p)
  let ?h = "snd (client st)"
  obtain r s' where g: "generate (fst (client st)) p = (r, s')"
    by (cases "generate (fst (client st)) p")
  from inv have raw: "last_raw st = last_returned ?h"
    and pr: "prompts_ok json_dumps user_task schema ?h"
    and fl: "failed json_loads schema ?h"
    by (simp_all add: loop_inv_def)
  from pr a raw Inr have pr': "prompts_ok json_dumps user_task schema (?h @ [(p, r)])"
    by (intro prompts_ok_snoc) simp_all
  from Inr have hint: "\<exists>hint. schema_hint json_dumps schema = Inr hint"
    by (simp add: attempt_prompt_def build_prompt_def split: sum.splits if_splits)
  show ?thesis
  proof (cases "attempt_ok json_loads schema r")
    case (Some obj)
    with Inr g pr' fl show ?thesis
      by (simp add: attempt_body_recording succeeded_def)
  next
    case None
    show ?thesis
    proof (cases "attempt_aborts json_loads schema r")
      case (Some e)
      with None Inr g pr' fl show ?thesis
        by (simp add: attempt_body_recording aborted_def)
    next
      case no_abort: None
      with None Inr g pr' fl raw hint show ?thesis
        by (simp add: attempt_body_recording loop_inv_def failed_snoc last_returned_snoc
            split: sum.splits)
    qed
  qed
qed

lemma attempts_loop_invariant:
  "numbered (length (snd (client st))) as \<Longrightarrow>
   loop_inv json_dumps json_loads schema user_task st \<Longrightarrow>
   (case attempts_loop json_dumps json_loads (recording generate) schema user_task as st of
      Continue st' \<Rightarrow>
        loop_inv json_dumps json_loads schema user_task st' \<and>
        length (snd (client st')) = length (snd (client st)) + length as
    | Return obj c \<Rightarrow>
        succeeded json_dumps json_loads schema user_task (snd c) obj \<and>
        length (snd c) \<le> length (snd (client st)) + length as
    | Raise e c \<Rightarrow>
        (schema_hint json_dumps schema = Inl e \<and> c = client st \<and> as \<noteq> []) \<or>
        (aborted json_dumps json_loads schema user_task (snd c) e \<and>
         length (snd c) \<le> length (snd (client st)) + length as))"
proof (induction as arbitrary: st)
  case Nil
  then show ?case by simp
next
  case (Cons a as)
  from Cons.prems have a: "a = int (length (snd (client st))) + 1"
    and rest: "numbered (Suc (length (snd (client st)))) as"
    by simp_all
  note step = attempt_body_step [OF Cons.prems(2) a, of generate]
  show ?case
  proof (cases "attempt_body json_dumps json_loads (recording generate) schema user_task a st")
    case (Return obj c)
    with step show ?thesis by simp
  next
    case (Raise e c)
    with step show ?thesis by auto
  next
    case (Continue st')
    with step have inv': "loop_inv json_dumps json_loads schema user_task st'"
      and len: "length (snd (client st')) = Suc (length (snd (client st)))"
      and hint: "\<exists>hint. schema_hint json_dumps schema = Inr hint"
      by simp_all
    from rest len have "numbered (length (snd (client st'))) as" by simp
    from Cons.IH [OF this inv'] Continue len hint show ?thesis
      by (auto split: step.splits)
  qed
qed

lemma numbered_upto: "numbered k [int k + 1..n]"
proof (induction "nat (n - int k)" arbitrary: k)
  case 0
  then show ?case by simp
next
  case (Suc m)
  then have le: "int k + 1 \<le> n" and m: "m = nat (n - int (Suc k))" by simp_all
  from le have "[int k + 1..n] = (int k + 1) # [int (Suc k) + 1..n]"
    by (simp add: upto_rec1 add.commute add.left_commute)
  with Suc.hyps(1) [OF m] show ?case by simp
qed

lemma loop_inv_initial:
  "loop_inv json_dumps json_loads schema user_task \<lparr>last_raw = [], last_err = [], client = (c, [])\<rparr>"
  by (simp add: loop_inv_def last_returned_Nil prompts_ok_def failed_def)

text \<open>The loop of a whole call, started with an empty history.\<close>

lemma loop_from_start:
  fixes generate :: "'s generate"
  shows "case attempts_loop json_dumps json_loads (recording generate) schema user_task
          [1..1 + max_retries] \<lparr>last_raw = [], last_err = [], client = (c, [])\<rparr> of
     Continue st \<Rightarrow>
       loop_inv json_dumps json_loads schema user_task st \<and>
       length (snd (client st)) = nat (1 + max_retries)
   | Return obj c' \<Rightarrow>
       succeeded json_dumps json_loads schema user_task (snd c') obj \<and>
       length (snd c') \<le> nat (1 + max_retries)
   | Raise e c' \<Rightarrow>
       (schema_hint json_dumps schema = Inl e \<and> c' = (c, []) \<and> 0 \<le> max_retries) \<or>
       (aborted json_dumps json_loads schema user_task (snd c') e \<and>
        length (snd c') \<le> nat (1 + max_retries))"
proof -
  let ?st0 = "\<lparr>last_raw = [], last_err = [], client = (c, [])\<rparr> :: ('s \<times> call list) loop_state"
  have num: "numbered (length (snd (client ?st0))) [1..1 + max_retries]"
    using numbered_upto [of 0 "1 + max_retries"] by simp
  have ne: "0 \<le> max_retries" if "[1..1 + max_retries] \<noteq> []"
    using that by simp
  from attempts_loop_invariant [OF num loop_inv_initial, of json_dumps json_loads schema
      user_task generate] ne
  show ?thesis
    by (auto simp: add.commute split: step.splits)
qed

lemma generate_structured_cases:
  fixes generate :: "'s generate" and schema :: "'obj schema"
  assumes run: "run = generate_structured json_dumps json_loads (recording generate) (c, [])
                        schema user_task max_retries"
  shows "(\<exists>obj. fst run = Inr obj \<and>
            succeeded json_dumps json_loads schema user_task (snd (snd run)) obj \<and>
            length (snd (snd run)) \<le> nat (1 + max_retries)) \<or>
         (\<exists>st m. fst run =
              Inl (StructuredGenerationError m (last_raw st)
                     (if last_err st = [] then ''Unknown error'' else last_err st)
                     (1 + max_retries)) \<and>
            snd run = client st \<and>
            loop_inv json_dumps json_loads schema user_task st \<and>
            length (snd (snd run)) = nat (1 + max_retries)) \<or>
         (\<exists>e. fst run = Inl e \<and> schema_hint json_dumps schema = Inl e \<and>
            snd run = (c, []) \<and> 0 \<le> max_retries) \<or>
         (\<exists>e. fst run = Inl e \<and>
            aborted json_dumps json_loads schema user_task (snd (snd run)) e \<and>
            length (snd (snd run)) \<le> nat (1 + max_retries))"
proof (cases "attempts_loop json_dumps json_loads (recording generate) schema user_task
                [1..1 + max_retries] \<lparr>last_raw = [], last_err = [], client = (c, [])\<rparr>")
  case (Return obj c')
  with loop_from_start [where generate = generate and c = c and json_dumps = json_dumps
      and json_loads = json_loads and schema = schema and user_task = user_task
      and max_retries = max_retries]
  show ?thesis
    unfolding run generate_structured_def Let_def by simp
next
  case (Continue st)
  with loop_from_start [where generate = generate and c = c and json_dumps = json_dumps
      and json_loads = json_loads and schema = schema and user_task = user_task
      and max_retries = max_retries]
  have "loop_inv json_dumps json_loads schema user_task st"
    and "length (snd (client st)) = nat (1 + max_retries)"
    by simp_all
  with Continue show ?thesis
    unfolding run generate_structured_def Let_def
    by (intro disjI2 disjI1 exI [of _ st]) simp
next
  case (Raise e c')
  with loop_from_start [where generate = generate and c = c and json_dumps = json_dumps
      and json_loads = json_loads and schema = schema and user_task = user_task
      and max_retries = max_retries]
  show ?thesis
    unfolding run generate_structured_def Let_def by auto
qed

lemma attempt_body_sim:
  "\<exists>h'. attempt_body json_dumps json_loads (recording generate) schema user_task a
          \<lparr>last_raw = r, last_err = e, client = (s, h)\<rparr> =
        (case attempt_body json_dumps json_loads generate schema user_task a
                \<lparr>last_raw = r, last_err = e, client = s\<rparr> of
           Return obj s' \<Rightarrow> Return obj (s', h')
         | Raise x s' \<Rightarrow> Raise x (s', h')
         | Continue st' \<Rightarrow>
             Continue \<lparr>last_raw = last_raw st', last_err = last_err st',
                       client = (client st', h')\<rparr>)"
  by (auto simp: attempt_body_eq recording_def split: prod.splits sum.splits option.splits)

lemma attempts_loop_sim:
  "\<exists>h'. attempts_loop json_dumps json_loads (recording generate) schema user_task as
          \<lparr>last_raw = r, last_err = e, client = (s, h)\<rparr> =
        (case attempts_loop json_dumps json_loads generate schema user_task as
                \<lparr>last_raw = r, last_err = e, client = s\<rparr> of
           Return obj s' \<Rightarrow> Return obj (s', h')
         | Raise x s' \<Rightarrow> Raise x (s', h')
         | Continue st' \<Rightarrow>
             Continue \<lparr>last_raw = last_raw st', last_err = last_err st',
                       client = (client st', h')\<rparr>)"
proof (induction as arbitrary: r e s h)
  case Nil
  then show ?case by simp
next
  case (Cons a as)
  from attempt_body_sim [of json_dumps json_loads generate schema user_task a r e s h]
  obtain h1 where b: "attempt_body json_dumps json_loads (recording generate) schema user_task a
          \<lparr>last_raw = r, last_err = e, client = (s, h)\<rparr> =
        (case attempt_body json_dumps json_loads generate schema user_task a
                \<lparr>last_raw = r, last_err = e, client = s\<rparr> of
           Return obj s' \<Rightarrow> Return obj (s', h1)
         | Raise x s' \<Rightarrow> Raise x (s', h1)
         | Continue st' \<Rightarrow>
             Continue \<lparr>last_raw = last_raw st', last_err = last_err st',
                       client = (client st', h1)\<rparr>)" ..
  show ?case
  proof (cases "attempt_body json_dumps json_loads generate schema user_task a
                  \<lparr>last_raw = r, last_err = e, client = s\<rparr>")
    case (Return obj s')
    with b show ?thesis by simp
  next
    case (Raise x s')
    with b show ?thesis by simp
  next
    case (Continue st')
    obtain r' e' s' where st': "st' = \<lparr>last_raw = r', last_err = e', client = s'\<rparr>"
      by (cases st') simp
    with Continue b Cons.IH [of r' e' s' h1] show ?thesis
      by simp
  qed
qed

lemma recording_transparent:
  "fst (generate_structured json_dumps json_loads (recording generate) (c, h) schema user_task
          max_retries) =
   fst (generate_structured json_dumps json_loads generate c schema user_task max_retries) \<and>
   fst (snd (generate_structured json_dumps json_loads (recording generate) (c, h) schema
               user_task max_retries)) =
   snd (generate_structured json_dumps json_loads generate c schema user_task max_retries)"
proof -
  from attempts_loop_sim [of json_dumps json_loads generate schema user_task
      "[1..1 + max_retries]" "[]" "[]" c h]
  obtain h' where
    "attempts_loop json_dumps json_loads (recording generate) schema user_task
       [1..1 + max_retries] \<lparr>last_raw = [], last_err = [], client = (c, h)\<rparr> =
     (case attempts_loop json_dumps json_loads generate schema user_task [1..1 + max_retries]
             \<lparr>last_raw = [], last_err = [], client = c\<rparr> of
        Return obj s' \<Rightarrow> Return obj (s', h')
      | Raise x s' \<Rightarrow> Raise x (s', h')
      | Continue st' \<Rightarrow>
          Continue \<lparr>last_raw = last_raw st', last_err = last_err st',
                    client = (client st', h')\<rparr>)" ..
  then show ?thesis
    by (simp add: generate_structured_def Let_def split: step.splits)
qed

lemma attempt_prompt_Inr:
  "schema_hint json_dumps schema = Inr hint \<Longrightarrow>
   \<exists>p. attempt_prompt json_dumps user_task schema attempt previous = Inr p"
  by (simp add: attempt_prompt_def build_prompt_def)

lemma attempt_body_Return:
  "attempt_body json_dumps json_loads generate schema user_task a st = Return obj c \<Longrightarrow>
   \<exists>r. attempt_ok json_loads schema r = Some obj"
  by (auto simp: attempt_body_eq split: sum.splits prod.splits option.splits)

text \<open>
  No exception leaves the loop when the schema hint can be built and the three calls
  raise nothing but \<^verbatim>\<open>Exception\<close>s.
\<close>

lemma attempt_aborts_None:
  assumes "\<And>s p e. fst (generate s p) = Inl e \<Longrightarrow> isinstance_Exception e"
    and "\<And>raw e. json_loads raw = Inl e \<Longrightarrow> isinstance_Exception e"
    and "\<And>data e. model_validate schema data = Inl e \<Longrightarrow> isinstance_Exception e"
  shows "attempt_aborts json_loads schema (fst (generate s p)) = None"
  using assms by (auto simp: attempt_aborts_def split: sum.splits)

lemma attempts_loop_no_raise:
  assumes hint: "schema_hint json_dumps schema = Inr hint"
    and g: "\<And>s p e. fst (generate s p) = Inl e \<Longrightarrow> isinstance_Exception e"
    and l: "\<And>raw e. json_loads raw = Inl e \<Longrightarrow> isinstance_Exception e"
    and v: "\<And>data e. model_validate schema data = Inl e \<Longrightarrow> isinstance_Exception e"
  shows "attempts_loop json_dumps json_loads generate schema user_task as st \<noteq> Raise e c"
proof (induction as arbitrary: st)
  case Nil
  then show ?case by simp
next
  case (Cons a as)
  from attempt_prompt_Inr [OF hint] obtain p where
    p: "attempt_prompt json_dumps user_task schema a (last_raw st) = Inr p"
    by blast
  have "attempt_aborts json_loads schema (fst (generate (client st) p)) = None"
    using g l v by (rule attempt_aborts_None)
  with p Cons.IH show ?case
    by (auto simp: attempt_body_eq split: prod.splits option.splits)
qed

lemma attempts_loop_return_validated:
  "attempts_loop json_dumps json_loads generate schema user_task as st = Return obj c \<Longrightarrow>
   \<exists>raw data. json_loads raw = Inr data \<and> model_validate schema data = Inr obj"
proof (induction as arbitrary: st)
  case Nil
  then show ?case by simp
next
  case (Cons a as)
  show ?case
  proof (cases "attempt_body json_dumps json_loads generate schema user_task a st")
    case (Return obj' c')
    with Cons.prems have "attempt_body json_dumps json_loads generate schema user_task a st =
        Return obj c"
      by simp
    then obtain r where "attempt_ok json_loads schema r = Some obj"
      by (blast dest: attempt_body_Return)
    then show ?thesis by (blast dest: attempt_ok_SomeD)
  next
    case (Raise x c')
    with Cons.prems show ?thesis by simp
  next
    case (Continue st')
    with Cons.prems Cons.IH [of st'] show ?thesis by simp
  qed
qed

lemma fst_recording: "fst (recording generate (s, h) p) = fst (generate s p)"
  by (simp add: recording_def split: prod.splits)



lemma failed_butlast_index:
  assumes f: "failed json_loads schema (butlast h)" and k: "k < length h"
    and ok: "attempt_ok json_loads schema (snd (h ! k)) = Some obj"
  shows "length h = Suc k"
proof -
  have "\<not> k < length (butlast h)"
  proof
    assume kl: "k < length (butlast h)"
    have "butlast h ! k \<in> set (butlast h)" using kl by (rule nth_mem)
    moreover have "butlast h ! k = h ! k" using kl by (rule nth_butlast)
    ultimately show False using f ok by (auto simp: failed_def list_all_iff)
  qed
  with k show ?thesis by simp
qed

lemma succeeded_index:
  assumes s: "succeeded json_dumps json_loads schema user_task h obj"
    and k: "k < length h" and ok: "attempt_ok json_loads schema (snd (h ! k)) = Some obj'"
  shows "obj' = obj \<and> length h = Suc k"
proof -
  from s have ne: "h \<noteq> []" and l: "attempt_ok json_loads schema (snd (last h)) = Some obj"
    and f: "failed json_loads schema (butlast h)"
    by (simp_all add: succeeded_def)
  from f k ok have len: "length h = Suc k" by (rule failed_butlast_index)
  with ne have "last h = h ! k" by (simp add: last_conv_nth)
  with l ok len show ?thesis by simp
qed

lemma aborted_no_success:
  assumes s: "aborted json_dumps json_loads schema user_task h e"
    and k: "k < length h"
  shows "attempt_ok json_loads schema (snd (h ! k)) \<noteq> Some obj"
proof
  assume ok: "attempt_ok json_loads schema (snd (h ! k)) = Some obj"
  from s have ne: "h \<noteq> []" and l: "attempt_aborts json_loads schema (snd (last h)) = Some e"
    and f: "failed json_loads schema (butlast h)"
    by (simp_all add: aborted_def)
  from f k ok have len: "length h = Suc k" by (rule failed_butlast_index)
  with ne have "last h = h ! k" by (simp add: last_conv_nth)
  with l attempt_ok_not_aborts [OF ok] show False by simp
qed


lemma three_attempts: "[1..3] = [1, 2, 3]"
  by (simp add: upto.simps)

section \<open>The prompt\<close>

lemma SimpleResult_hint:
  "schema_hint json_dumps (SimpleResult_schema str_as_float error_text) =
     Inr (json_dumps (PDict
       [(''type'', PStr ''object''),
        (''required_keys'', PList [PStr ''title'', PStr ''items'', PStr ''confidence'']),
        (''properties'', PDict
           [(''title'', PDict
               [(''type'', PStr ''string''),
                (''description'',
                   PStr (''A short title or summary (e.g., 'Caf'' @ [CHR 0xE9] @
                         '' noise assessment')''))]),
            (''items'', PDict
               [(''type'', PStr ''array''),
                (''description'', PStr ''A list of supporting points or observations'')]),
            (''confidence'', PDict
               [(''type'', PStr ''number''),
                (''description'', PStr ''Confidence level in the result (0.0 to 1.0)'')])])]))"
  by (simp add: schema_hint_def SimpleResult_schema_def SimpleResult_json_schema_def
      dict_get_or_def dict_get_def)

lemma example_hint: "schema_hint (\<lambda>v. []) example_schema = Inr []"
  by (simp add: example_schema_def SimpleResult_hint)



section \<open>Runs, evaluated\<close>

lemma valid_data_validates:
  "SimpleResult_validate str_as_float valid_data =
     Some \<lparr>title = ''OK'', items = [''x'', ''y'', ''z''], confidence = float_0_8\<rparr>"
  by (simp add: valid_data_def SimpleResult_validate_def validate_title_def validate_items_def
      validate_item_def validate_confidence_def in_unit_def within_unit_def float_0_8_def)

lemma not_json_neq_valid: "''not json at all'' \<noteq> valid_output"
  by (simp add: valid_output_def)

lemma garbage_neq_valid: "''garbage'' \<noteq> valid_output"
  by (simp add: valid_output_def)

lemma example_attempts:
  "attempt_ok example_loads example_schema (Inr ''not json at all'') = None"
  "attempt_aborts example_loads example_schema (Inr ''not json at all'') = None"
  "attempt_ok example_loads example_schema (Inr ''garbage'') = None"
  "attempt_aborts example_loads example_schema (Inr ''garbage'') = None"
  "attempt_ok example_loads example_schema (Inr valid_output) =
     Some \<lparr>title = ''OK'', items = [''x'', ''y'', ''z''], confidence = float_0_8\<rparr>"
  "failure_reason example_loads example_schema (Inr ''garbage'') =
     ''JSON parse error: Expecting value''"
  "attempt_ok example_loads example_schema (Inl (BaseException ''KeyboardInterrupt'')) = None"
  "attempt_aborts example_loads example_schema (Inl (BaseException ''KeyboardInterrupt'')) =
     Some (BaseException ''KeyboardInterrupt'')"
  by (simp_all add: attempt_ok_def attempt_aborts_def failure_reason_def example_loads_def
      example_schema_def SimpleResult_schema_def valid_data_validates not_json_neq_valid
      garbage_neq_valid isinstance_Exception_def)

lemma example_prompts:
  "attempt_prompt (\<lambda>v. []) ''task'' example_schema 1 previous =
     Inr (prompt_head [] @ ''TASK:\<newline>'' @ ''task'' @ ''\<newline>'')"
  "attempt_prompt (\<lambda>v. []) ''task'' example_schema 2 previous =
     Inr (prompt_head [] @ repair_intro @ ''INVALID OUTPUT:\<newline>'' @ previous @ ''\<newline>'')"
  "attempt_prompt (\<lambda>v. []) ''task'' example_schema 3 previous =
     Inr (prompt_head [] @ repair_intro @ ''INVALID OUTPUT:\<newline>'' @ previous @ ''\<newline>'')"
  by (simp_all add: attempt_prompt_def build_prompt_def example_hint or_empty_def)

text \<open>The first test: one malformed output, then the valid one.\<close>

lemma example_run:
  "generate_structured (\<lambda>v. []) example_loads (recording FakeClient_generate)
     (example_client, []) example_schema ''task'' 2 =
   (Inr \<lparr>title = ''OK'', items = [''x'', ''y'', ''z''], confidence = float_0_8\<rparr>,
    \<lparr>outputs = [''not json at all'', valid_output], calls = 2\<rparr>,
    [(prompt_head [] @ ''TASK:\<newline>'' @ ''task'' @ ''\<newline>'', Inr ''not json at all''),
     (prompt_head [] @ repair_intro @ ''INVALID OUTPUT:\<newline>'' @ ''not json at all'' @ ''\<newline>'',
      Inr valid_output)])"
  by (simp add: generate_structured_def Let_def three_attempts attempt_body_eq recording_def
      FakeClient_generate_def example_client_def example_attempts example_prompts)

text \<open>A client that answers \<^verbatim>\<open>garbage\<close> twice, with \<^verbatim>\<open>max_retries=1\<close>.\<close>

lemma garbage_run:
  "generate_structured (\<lambda>v. []) example_loads (recording garbage_client) (0, [])
     example_schema ''task'' 1 =
   (Inl (StructuredGenerationError
           (''Failed to generate valid structured output after '' @ str_int 2 @ '' attempts'')
           ''garbage'' ''JSON parse error: Expecting value'' 2),
    2,
    [(prompt_head [] @ ''TASK:\<newline>'' @ ''task'' @ ''\<newline>'', Inr ''garbage''),
     (prompt_head [] @ repair_intro @ ''INVALID OUTPUT:\<newline>'' @ ''garbage'' @ ''\<newline>'',
      Inr ''garbage'')])"
  by (simp add: generate_structured_def Let_def upto.simps attempt_body_eq recording_def
      garbage_client_def example_attempts example_prompts)

text \<open>What the examples raise.\<close>

lemma example_raises:
  "fst (garbage_client s p) = Inl e \<Longrightarrow> isinstance_Exception e"
  "example_loads raw = Inl e \<Longrightarrow> isinstance_Exception e"
  "model_validate example_schema data = Inl e \<Longrightarrow> isinstance_Exception e"
  by (auto simp: garbage_client_def example_loads_def example_schema_def SimpleResult_schema_def
      isinstance_Exception_def split: if_splits option.splits)

section \<open>The outcomes of \<^verbatim>\<open>generate_structured\<close>\<close>

text \<open>
  C1, as claimed for every schema, fails: for a schema that Pydantic cannot describe the
  prompt of attempt 1 is not built, and the exception of \<^verbatim>\<open>model_json_schema()\<close> leaves
  \<^verbatim>\<open>generate_structured\<close>, which is neither a result nor a \<^verbatim>\<open>StructuredGenerationError\<close>.
\<close>

theorem undescribable_schema_counterexample:
  "fst (generate_structured (\<lambda>v. []) example_loads garbage_client 0 undescribable_schema
          ''task'' 2) =
     Inl (Exception ''Cannot generate a JsonSchema for core_schema.CallableSchema'') \<and>
   \<not> ((\<exists>obj. fst (generate_structured (\<lambda>v. []) example_loads garbage_client 0
                     undescribable_schema ''task'' 2) = Inr obj) \<or>
       (\<exists>m r e a. fst (generate_structured (\<lambda>v. []) example_loads garbage_client 0
                         undescribable_schema ''task'' 2) =
                   Inl (StructuredGenerationError m r e a)))"
  by (simp add: generate_structured_def Let_def three_attempts attempt_body_def
      attempt_prompt_def build_prompt_def schema_hint_def undescribable_schema_def)

text \<open>
  C1, amended: when the schema hint can be built and the client, \<^verbatim>\<open>json.loads\<close> and
  \<^verbatim>\<open>model_validate\<close> raise nothing but \<^verbatim>\<open>Exception\<close>s, the call ends in one of two ways, and
  never in both. Either it returns an instance that \<^verbatim>\<open>model_validate\<close> gave for the parsed
  text of some output, or it raises a \<^verbatim>\<open>StructuredGenerationError\<close>. The model is a total
  function: the loop runs over the finite range of attempts.
\<close>

theorem returns_validated_or_raises_failure:
  assumes hint: "schema_hint json_dumps schema = Inr hint"
    and g: "\<And>s p e. fst (generate s p) = Inl e \<Longrightarrow> isinstance_Exception e"
    and l: "\<And>raw e. json_loads raw = Inl e \<Longrightarrow> isinstance_Exception e"
    and v: "\<And>data e. model_validate schema data = Inl e \<Longrightarrow> isinstance_Exception e"
  shows
  "((\<exists>obj raw data.
       fst (generate_structured json_dumps json_loads generate c schema user_task max_retries) =
         Inr obj \<and>
       json_loads raw = Inr data \<and> model_validate schema data = Inr obj) \<or>
    (\<exists>m r e.
       fst (generate_structured json_dumps json_loads generate c schema user_task max_retries) =
         Inl (StructuredGenerationError m r e (1 + max_retries)))) \<and>
   \<not> ((\<exists>obj.
       fst (generate_structured json_dumps json_loads generate c schema user_task max_retries) =
         Inr obj) \<and>
    (\<exists>e.
       fst (generate_structured json_dumps json_loads generate c schema user_task max_retries) =
         Inl e))"
proof (cases "attempts_loop json_dumps json_loads generate schema user_task [1..1 + max_retries]
                \<lparr>last_raw = [], last_err = [], client = c\<rparr>")
  case (Return obj c')
  then obtain raw data where "json_loads raw = Inr data" "model_validate schema data = Inr obj"
    by (blast dest: attempts_loop_return_validated)
  with Return show ?thesis
    by (auto simp: generate_structured_def Let_def)
next
  case (Raise e c')
  have "attempts_loop json_dumps json_loads generate schema user_task [1..1 + max_retries]
          \<lparr>last_raw = [], last_err = [], client = c\<rparr> \<noteq> Raise e c'"
    by (rule attempts_loop_no_raise [OF hint]) (erule g l v)+
  with Raise show ?thesis by simp
next
  case (Continue st)
  then show ?thesis
    by (simp add: generate_structured_def Let_def)
qed

theorem returns_validated_or_raises_failure_witness:
  "schema_hint (\<lambda>v. []) example_schema = Inr [] \<and>
   ((\<exists>obj raw data.
       fst (generate_structured (\<lambda>v. []) example_loads garbage_client 0 example_schema
              ''task'' 2) = Inr obj \<and>
       example_loads raw = Inr data \<and> model_validate example_schema data = Inr obj) \<or>
    (\<exists>m r e.
       fst (generate_structured (\<lambda>v. []) example_loads garbage_client 0 example_schema
              ''task'' 2) = Inl (StructuredGenerationError m r e (1 + 2)))) \<and>
   \<not> ((\<exists>obj.
       fst (generate_structured (\<lambda>v. []) example_loads garbage_client 0 example_schema
              ''task'' 2) = Inr obj) \<and>
    (\<exists>e.
       fst (generate_structured (\<lambda>v. []) example_loads garbage_client 0 example_schema
              ''task'' 2) = Inl e))"
proof -
  have "((\<exists>obj raw data.
       fst (generate_structured (\<lambda>v. []) example_loads garbage_client 0 example_schema
              ''task'' 2) = Inr obj \<and>
       example_loads raw = Inr data \<and> model_validate example_schema data = Inr obj) \<or>
    (\<exists>m r e.
       fst (generate_structured (\<lambda>v. []) example_loads garbage_client 0 example_schema
              ''task'' 2) = Inl (StructuredGenerationError m r e (1 + 2)))) \<and>
   \<not> ((\<exists>obj.
       fst (generate_structured (\<lambda>v. []) example_loads garbage_client 0 example_schema
              ''task'' 2) = Inr obj) \<and>
    (\<exists>e.
       fst (generate_structured (\<lambda>v. []) example_loads garbage_client 0 example_schema
              ''task'' 2) = Inl e))"
    by (rule returns_validated_or_raises_failure [OF example_hint]) (erule example_raises)+
  with example_hint show ?thesis by (rule conjI)
qed



text \<open>
  C3: if the output of call number \<open>k\<close> (counted from 0) parses and validates, giving
  \<open>obj\<close>, then the call returns \<open>obj\<close> and call \<open>k\<close> is the last call of the client. In
  the first test (a malformed output, then the valid one, \<open>max_retries = 2\<close>) the client is
  called twice and the result has the title, the items and the confidence of the valid
  output; what \<^verbatim>\<open>json.loads\<close> makes of the two outputs is the hypothesis.
\<close>

theorem success_stops_the_loop:
  "(k < length (snd (snd (generate_structured json_dumps json_loads (recording generate)
                            (c, []) schema user_task max_retries))) \<and>
     attempt_ok json_loads schema
       (snd (snd (snd (generate_structured json_dumps json_loads (recording generate) (c, [])
                         schema user_task max_retries)) ! k)) = Some obj \<longrightarrow>
     fst (generate_structured json_dumps json_loads (recording generate) (c, []) schema
            user_task max_retries) = Inr obj \<and>
     length (snd (snd (generate_structured json_dumps json_loads (recording generate) (c, [])
                         schema user_task max_retries))) = Suc k) \<and>
   ((\<exists>e. json_loads ''not json at all'' = Inl e \<and> isinstance_Exception e) \<and>
    json_loads valid_output = Inr valid_data \<longrightarrow>
    generate_structured json_dumps json_loads FakeClient_generate
      \<lparr>outputs = [''not json at all'', valid_output], calls = 0\<rparr>
      (SimpleResult_schema str_as_float error_text)
      ''Return a title, 3 items, and confidence.'' 2 =
    (Inr \<lparr>title = ''OK'', items = [''x'', ''y'', ''z''], confidence = float_0_8\<rparr>,
     \<lparr>outputs = [''not json at all'', valid_output], calls = 2\<rparr>))"
proof (intro conjI impI)
  let ?run = "generate_structured json_dumps json_loads (recording generate) (c, []) schema
                user_task max_retries"
  assume "k < length (snd (snd ?run)) \<and>
    attempt_ok json_loads schema (snd (snd (snd ?run) ! k)) = Some obj"
  then have k: "k < length (snd (snd ?run))"
    and ok: "attempt_ok json_loads schema (snd (snd (snd ?run) ! k)) = Some obj"
    by simp_all
  from generate_structured_cases [OF refl, of json_dumps json_loads generate c schema user_task
      max_retries]
  have "\<exists>obj'. fst ?run = Inr obj' \<and>
          succeeded json_dumps json_loads schema user_task (snd (snd ?run)) obj'"
  proof (elim disjE)
    assume "\<exists>obj. fst ?run = Inr obj \<and>
      succeeded json_dumps json_loads schema user_task (snd (snd ?run)) obj \<and>
      length (snd (snd ?run)) \<le> nat (1 + max_retries)"
    then show ?thesis by blast
  next
    assume "\<exists>st m. fst ?run =
        Inl (StructuredGenerationError m (last_raw st)
               (if last_err st = [] then ''Unknown error'' else last_err st) (1 + max_retries)) \<and>
      snd ?run = client st \<and> loop_inv json_dumps json_loads schema user_task st \<and>
      length (snd (snd ?run)) = nat (1 + max_retries)"
    then obtain st where "snd ?run = client st"
      and "loop_inv json_dumps json_loads schema user_task st"
      by blast
    then have "failed json_loads schema (snd (snd ?run))"
      by (simp add: loop_inv_def)
    with k have "attempt_ok json_loads schema (snd (snd (snd ?run) ! k)) = None"
      by (simp add: failed_def list_all_length)
    with ok show ?thesis by simp
  next
    assume "\<exists>e. fst ?run = Inl e \<and> schema_hint json_dumps schema = Inl e \<and>
      snd ?run = (c, []) \<and> 0 \<le> max_retries"
    with k show ?thesis by auto
  next
    assume "\<exists>e. fst ?run = Inl e \<and>
      aborted json_dumps json_loads schema user_task (snd (snd ?run)) e \<and>
      length (snd (snd ?run)) \<le> nat (1 + max_retries)"
    with k ok show ?thesis by (blast dest: aborted_no_success)
  qed
  then obtain obj' where r: "fst ?run = Inr obj'"
    and s: "succeeded json_dumps json_loads schema user_task (snd (snd ?run)) obj'"
    by blast
  from succeeded_index [OF s k ok] r
  show "fst ?run = Inr obj" and "length (snd (snd ?run)) = Suc k"
    by simp_all
next
  let ?S = "SimpleResult_schema str_as_float error_text"
  assume "(\<exists>e. json_loads ''not json at all'' = Inl e \<and> isinstance_Exception e) \<and>
    json_loads valid_output = Inr valid_data"
  then obtain e where bad: "json_loads ''not json at all'' = Inl e"
    and e: "isinstance_Exception e"
    and good: "json_loads valid_output = Inr valid_data"
    by blast
  have ok1: "attempt_ok json_loads ?S (Inr ''not json at all'') = None"
    "attempt_aborts json_loads ?S (Inr ''not json at all'') = None"
    using bad e by (simp_all add: attempt_ok_def attempt_aborts_def)
  have ok2: "attempt_ok json_loads ?S (Inr valid_output) =
      Some \<lparr>title = ''OK'', items = [''x'', ''y'', ''z''], confidence = float_0_8\<rparr>"
    using good valid_data_validates [of str_as_float]
    by (simp add: attempt_ok_def SimpleResult_schema_def)
  obtain p1 where p1: "attempt_prompt json_dumps ''Return a title, 3 items, and confidence.''
      ?S 1 [] = Inr p1"
    using attempt_prompt_Inr [OF SimpleResult_hint] by blast
  obtain p2 where p2: "attempt_prompt json_dumps ''Return a title, 3 items, and confidence.''
      ?S 2 ''not json at all'' = Inr p2"
    using attempt_prompt_Inr [OF SimpleResult_hint] by blast
  show "generate_structured json_dumps json_loads FakeClient_generate
      \<lparr>outputs = [''not json at all'', valid_output], calls = 0\<rparr> ?S
      ''Return a title, 3 items, and confidence.'' 2 =
    (Inr \<lparr>title = ''OK'', items = [''x'', ''y'', ''z''], confidence = float_0_8\<rparr>,
     \<lparr>outputs = [''not json at all'', valid_output], calls = 2\<rparr>)"
    by (simp add: generate_structured_def Let_def three_attempts attempt_body_eq
        FakeClient_generate_def ok1 ok2 p1 p2)
qed

theorem success_stops_the_loop_witness:
  "Suc 0 < length (snd (snd (generate_structured (\<lambda>v. []) example_loads
                               (recording FakeClient_generate) (example_client, [])
                               example_schema ''task'' 2))) \<and>
   attempt_ok example_loads example_schema
     (snd (snd (snd (generate_structured (\<lambda>v. []) example_loads
                       (recording FakeClient_generate) (example_client, [])
                       example_schema ''task'' 2)) ! Suc 0)) =
     Some \<lparr>title = ''OK'', items = [''x'', ''y'', ''z''], confidence = float_0_8\<rparr> \<and>
   (\<exists>e. example_loads ''not json at all'' = Inl e \<and> isinstance_Exception e) \<and>
   example_loads valid_output = Inr valid_data \<and>
   fst (generate_structured (\<lambda>v. []) example_loads (recording FakeClient_generate)
          (example_client, []) example_schema ''task'' 2) =
     Inr \<lparr>title = ''OK'', items = [''x'', ''y'', ''z''], confidence = float_0_8\<rparr> \<and>
   length (snd (snd (generate_structured (\<lambda>v. []) example_loads
                       (recording FakeClient_generate) (example_client, [])
                       example_schema ''task'' 2))) = Suc (Suc 0) \<and>
   generate_structured (\<lambda>v. []) example_loads FakeClient_generate
     \<lparr>outputs = [''not json at all'', valid_output], calls = 0\<rparr>
     (SimpleResult_schema (\<lambda>s. None) (\<lambda>data. ''invalid''))
     ''Return a title, 3 items, and confidence.'' 2 =
   (Inr \<lparr>title = ''OK'', items = [''x'', ''y'', ''z''], confidence = float_0_8\<rparr>,
    \<lparr>outputs = [''not json at all'', valid_output], calls = 2\<rparr>)"
proof -
  have k: "Suc 0 < length (snd (snd (generate_structured (\<lambda>v. []) example_loads
                               (recording FakeClient_generate) (example_client, [])
                               example_schema ''task'' 2))) \<and>
   attempt_ok example_loads example_schema
     (snd (snd (snd (generate_structured (\<lambda>v. []) example_loads
                       (recording FakeClient_generate) (example_client, [])
                       example_schema ''task'' 2)) ! Suc 0)) =
     Some \<lparr>title = ''OK'', items = [''x'', ''y'', ''z''], confidence = float_0_8\<rparr>"
    by (simp add: example_run example_attempts)
  have l: "(\<exists>e. example_loads ''not json at all'' = Inl e \<and> isinstance_Exception e) \<and>
      example_loads valid_output = Inr valid_data"
    by (simp add: example_loads_def not_json_neq_valid isinstance_Exception_def)
  note inst = success_stops_the_loop [of "Suc 0" "\<lambda>v. []" example_loads FakeClient_generate
      example_client example_schema "''task''" 2
      "\<lparr>title = ''OK'', items = [''x'', ''y'', ''z''], confidence = float_0_8\<rparr>"
      "\<lambda>s. None" "\<lambda>data. ''invalid''"]
  from inst [THEN conjunct1, rule_format, OF k] inst [THEN conjunct2, rule_format, OF l] k l
  show ?thesis by blast
qed

text \<open>
  C4: the first call of the client gets the normal prompt with the task. Every later call
  gets the repair prompt, and the invalid output in it is the raw text of the most recent
  earlier call that returned, or the empty string if none has returned: a call that raised
  leaves it as it was.
\<close>

theorem repair_prompt_carries_last_returned:
  "\<forall>i<length (snd (snd (generate_structured json_dumps json_loads (recording generate) (c, [])
                           schema user_task max_retries))).
     (if i = 0 then build_prompt json_dumps user_task schema None False
      else build_prompt json_dumps user_task schema
             (Some (last_returned
                (take i (snd (snd (generate_structured json_dumps json_loads
                    (recording generate) (c, []) schema user_task max_retries))))))
             True) =
     Inr (fst (snd (snd (generate_structured json_dumps json_loads (recording generate) (c, [])
                           schema user_task max_retries)) ! i))"
proof -
  let ?run = "generate_structured json_dumps json_loads (recording generate) (c, []) schema
                user_task max_retries"
  from generate_structured_cases [OF refl, of json_dumps json_loads generate c schema user_task
      max_retries]
  have "prompts_ok json_dumps user_task schema (snd (snd ?run))"
    by (auto simp: succeeded_def loop_inv_def aborted_def prompts_ok_def)
  then show ?thesis
    by (simp add: prompts_ok_def attempt_prompt_def)
qed

theorem repair_prompt_carries_last_returned_witness:
  "Suc 0 < length (snd (snd (generate_structured (\<lambda>v. []) example_loads
                               (recording FakeClient_generate) (example_client, [])
                               example_schema ''task'' 2))) \<and>
   last_returned (take (Suc 0)
     (snd (snd (generate_structured (\<lambda>v. []) example_loads (recording FakeClient_generate)
                  (example_client, []) example_schema ''task'' 2)))) = ''not json at all'' \<and>
   build_prompt (\<lambda>v. []) ''task'' example_schema (Some ''not json at all'') True =
     Inr (fst (snd (snd (generate_structured (\<lambda>v. []) example_loads
                           (recording FakeClient_generate) (example_client, []) example_schema
                           ''task'' 2)) ! Suc 0))"
proof -
  have k: "Suc 0 < length (snd (snd (generate_structured (\<lambda>v. []) example_loads
                               (recording FakeClient_generate) (example_client, [])
                               example_schema ''task'' 2)))"
    by (simp add: example_run)
  have l: "last_returned (take (Suc 0)
     (snd (snd (generate_structured (\<lambda>v. []) example_loads (recording FakeClient_generate)
                  (example_client, []) example_schema ''task'' 2)))) = ''not json at all''"
    by (simp add: example_run last_returned_def returned_raws_def map_filter_def)
  from repair_prompt_carries_last_returned [rule_format, OF k]
  have "build_prompt (\<lambda>v. []) ''task'' example_schema
       (Some (last_returned (take (Suc 0)
          (snd (snd (generate_structured (\<lambda>v. []) example_loads
                       (recording FakeClient_generate) (example_client, []) example_schema
                       ''task'' 2))))))
       True =
     Inr (fst (snd (snd (generate_structured (\<lambda>v. []) example_loads
                         (recording FakeClient_generate) (example_client, []) example_schema
                         ''task'' 2)) ! Suc 0))"
    by simp
  with k l show ?thesis by simp
qed

lemma interrupted_run:
  "generate_structured (\<lambda>v. []) example_loads (recording interrupted_client) (0, [])
     example_schema ''task'' 2 =
   (Inl (BaseException ''KeyboardInterrupt''),
    Suc 0,
    [(prompt_head [] @ ''TASK:\<newline>'' @ ''task'' @ ''\<newline>'',
      Inl (BaseException ''KeyboardInterrupt''))])"
  by (simp add: generate_structured_def Let_def three_attempts attempt_body_eq recording_def
      interrupted_client_def example_attempts example_prompts)

lemma undescribable_run:
  "generate_structured (\<lambda>v. []) example_loads (recording garbage_client) (0, [])
     undescribable_schema ''task'' 2 =
   (Inl (Exception ''Cannot generate a JsonSchema for core_schema.CallableSchema''), 0, [])"
  by (simp add: generate_structured_def Let_def three_attempts attempt_body_def
      attempt_prompt_def build_prompt_def schema_hint_def undescribable_schema_def)

lemma raised_is_exhaustion:
  assumes hint: "schema_hint json_dumps schema = Inr hint"
    and g: "\<And>s p e. fst (generate s p) = Inl e \<Longrightarrow> isinstance_Exception e"
    and l: "\<And>raw e. json_loads raw = Inl e \<Longrightarrow> isinstance_Exception e"
    and v: "\<And>data e. model_validate schema data = Inl e \<Longrightarrow> isinstance_Exception e"
    and e: "fst (generate_structured json_dumps json_loads generate c schema user_task
                   max_retries) = Inl e"
  shows "\<exists>m r le. e = StructuredGenerationError m r le (1 + max_retries)"
proof (cases "attempts_loop json_dumps json_loads generate schema user_task [1..1 + max_retries]
                \<lparr>last_raw = [], last_err = [], client = c\<rparr>")
  case (Return obj c')
  with e show ?thesis by (simp add: generate_structured_def Let_def)
next
  case (Raise x c')
  have "attempts_loop json_dumps json_loads generate schema user_task [1..1 + max_retries]
          \<lparr>last_raw = [], last_err = [], client = c\<rparr> \<noteq> Raise x c'"
    by (rule attempts_loop_no_raise [OF hint]) (erule g l v)+
  with Raise show ?thesis by simp
next
  case (Continue st)
  with e show ?thesis by (auto simp: generate_structured_def Let_def)
qed

lemma exhaustion_carries_record:
  assumes inv: "loop_inv json_dumps json_loads schema user_task st"
  shows "last_raw st = last_returned (snd (client st)) \<and>
         (if last_err st = [] then ''Unknown error'' else last_err st) =
           (if snd (client st) = [] then ''Unknown error''
            else failure_reason json_loads schema (snd (last (snd (client st))))) \<and>
         failed json_loads schema (snd (client st))"
proof -
  let ?h = "snd (client st)"
  from inv have raw: "last_raw st = last_returned ?h"
    and err: "last_err st = (if ?h = [] then [] else failure_reason json_loads schema (snd (last ?h)))"
    and f: "failed json_loads schema ?h"
    by (simp_all add: loop_inv_def)
  have "failure_reason json_loads schema (snd (last ?h)) \<noteq> []" if "?h \<noteq> []"
  proof -
    from that have "last ?h \<in> set ?h" by simp
    with f have "attempt_ok json_loads schema (snd (last ?h)) = None"
      by (simp add: failed_def list_all_iff)
    then show ?thesis by (rule failure_reason_nonempty)
  qed
  with err raw f show ?thesis by simp
qed

text \<open>
  C6, as claimed, fails: an exception that is no \<^verbatim>\<open>Exception\<close>, here the
  \<^verbatim>\<open>KeyboardInterrupt\<close> of the first call, reaches the caller after one call of a budget of
  three; and the exception of a schema that cannot be described reaches the caller before
  any call. Neither is the \<^verbatim>\<open>StructuredGenerationError\<close> of exhaustion.
\<close>

theorem interrupt_counterexample:
  "generate_structured (\<lambda>v. []) example_loads (recording interrupted_client) (0, [])
     example_schema ''task'' 2 =
   (Inl (BaseException ''KeyboardInterrupt''),
    Suc 0,
    [(prompt_head [] @ ''TASK:\<newline>'' @ ''task'' @ ''\<newline>'',
      Inl (BaseException ''KeyboardInterrupt''))]) \<and>
   generate_structured (\<lambda>v. []) example_loads (recording garbage_client) (0, [])
     undescribable_schema ''task'' 2 =
   (Inl (Exception ''Cannot generate a JsonSchema for core_schema.CallableSchema''), 0, [])"
  by (simp add: interrupted_run undescribable_run)

text \<open>
  C6, amended: an exception that leaves \<^verbatim>\<open>generate_structured\<close> is one of three. It is the
  \<^verbatim>\<open>StructuredGenerationError\<close> of exhaustion, raised after \<open>1 + max_retries\<close> calls that
  have all failed, which carries what the loop recorded (the raw text last returned and the
  reason of the last failure: the client's error, the parse error or the validation
  error); or it is the exception with which the schema hint could not be built, before any
  call; or it is no \<^verbatim>\<open>Exception\<close> and was raised in the last attempt made. So an
  \<^verbatim>\<open>Exception\<close> of the client, of \<^verbatim>\<open>json.loads\<close> or of \<^verbatim>\<open>model_validate\<close> is never passed on.
  When the schema hint can be built and the three calls raise nothing but \<^verbatim>\<open>Exception\<close>s,
  the only exception raised is that of exhaustion.
\<close>

theorem only_exhaustion_is_raised:
  "(fst (generate_structured json_dumps json_loads (recording generate) (c, []) schema user_task
           max_retries) = Inl e \<longrightarrow>
    ((\<exists>m. e = StructuredGenerationError m
            (last_returned (snd (snd (generate_structured json_dumps json_loads
               (recording generate) (c, []) schema user_task max_retries))))
            (if snd (snd (generate_structured json_dumps json_loads (recording generate) (c, [])
                            schema user_task max_retries)) = []
             then ''Unknown error''
             else failure_reason json_loads schema
                    (snd (last (snd (snd (generate_structured json_dumps json_loads
                       (recording generate) (c, []) schema user_task max_retries))))))
            (1 + max_retries)) \<and>
     length (snd (snd (generate_structured json_dumps json_loads (recording generate) (c, [])
                         schema user_task max_retries))) = nat (1 + max_retries) \<and>
     failed json_loads schema
       (snd (snd (generate_structured json_dumps json_loads (recording generate) (c, []) schema
                    user_task max_retries)))) \<or>
    (schema_hint json_dumps schema = Inl e \<and>
     snd (snd (generate_structured json_dumps json_loads (recording generate) (c, []) schema
                 user_task max_retries)) = []) \<or>
    (\<not> isinstance_Exception e \<and>
     snd (snd (generate_structured json_dumps json_loads (recording generate) (c, []) schema
                 user_task max_retries)) \<noteq> [] \<and>
     attempt_aborts json_loads schema
       (snd (last (snd (snd (generate_structured json_dumps json_loads (recording generate)
                               (c, []) schema user_task max_retries))))) = Some e \<and>
     failed json_loads schema
       (butlast (snd (snd (generate_structured json_dumps json_loads (recording generate)
                             (c, []) schema user_task max_retries)))))) \<and>
   ((\<exists>hint. schema_hint json_dumps schema = Inr hint) \<and>
    (\<forall>s p x. fst (generate s p) = Inl x \<longrightarrow> isinstance_Exception x) \<and>
    (\<forall>raw x. json_loads raw = Inl x \<longrightarrow> isinstance_Exception x) \<and>
    (\<forall>data x. model_validate schema data = Inl x \<longrightarrow> isinstance_Exception x) \<and>
    fst (generate_structured json_dumps json_loads (recording generate) (c, []) schema user_task
           max_retries) = Inl e \<longrightarrow>
    (\<exists>m. e = StructuredGenerationError m
            (last_returned (snd (snd (generate_structured json_dumps json_loads
               (recording generate) (c, []) schema user_task max_retries))))
            (if snd (snd (generate_structured json_dumps json_loads (recording generate) (c, [])
                            schema user_task max_retries)) = []
             then ''Unknown error''
             else failure_reason json_loads schema
                    (snd (last (snd (snd (generate_structured json_dumps json_loads
                       (recording generate) (c, []) schema user_task max_retries))))))
            (1 + max_retries)) \<and>
    length (snd (snd (generate_structured json_dumps json_loads (recording generate) (c, [])
                        schema user_task max_retries))) = nat (1 + max_retries) \<and>
    failed json_loads schema
      (snd (snd (generate_structured json_dumps json_loads (recording generate) (c, []) schema
                   user_task max_retries))))"
proof -
  let ?run = "generate_structured json_dumps json_loads (recording generate) (c, []) schema
                user_task max_retries"
  let ?h = "snd (snd ?run)"
  let ?exhausted = "(\<exists>m. e = StructuredGenerationError m (last_returned ?h)
      (if ?h = [] then ''Unknown error'' else failure_reason json_loads schema (snd (last ?h)))
      (1 + max_retries)) \<and> length ?h = nat (1 + max_retries) \<and> failed json_loads schema ?h"
  let ?undescribed = "schema_hint json_dumps schema = Inl e \<and> ?h = []"
  let ?interrupted = "\<not> isinstance_Exception e \<and> ?h \<noteq> [] \<and>
      attempt_aborts json_loads schema (snd (last ?h)) = Some e \<and>
      failed json_loads schema (butlast ?h)"
  have first: "?exhausted \<or> ?undescribed \<or> ?interrupted" if e: "fst ?run = Inl e"
    using generate_structured_cases [OF refl, of json_dumps json_loads generate c schema
        user_task max_retries]
  proof (elim disjE)
    assume "\<exists>obj. fst ?run = Inr obj \<and>
      succeeded json_dumps json_loads schema user_task ?h obj \<and>
      length ?h \<le> nat (1 + max_retries)"
    with e show ?thesis by auto
  next
    assume "\<exists>st m. fst ?run =
        Inl (StructuredGenerationError m (last_raw st)
               (if last_err st = [] then ''Unknown error'' else last_err st) (1 + max_retries)) \<and>
      snd ?run = client st \<and> loop_inv json_dumps json_loads schema user_task st \<and>
      length ?h = nat (1 + max_retries)"
    then obtain st m where
      r: "fst ?run = Inl (StructuredGenerationError m (last_raw st)
             (if last_err st = [] then ''Unknown error'' else last_err st) (1 + max_retries))"
      and cl: "snd ?run = client st"
      and inv: "loop_inv json_dumps json_loads schema user_task st"
      and len: "length ?h = nat (1 + max_retries)"
      by blast
    from exhaustion_carries_record [OF inv] cl r e len have ?exhausted by auto
    then show ?thesis by (rule disjI1)
  next
    assume "\<exists>x. fst ?run = Inl x \<and> schema_hint json_dumps schema = Inl x \<and>
      snd ?run = (c, []) \<and> 0 \<le> max_retries"
    with e have ?undescribed by auto
    then show ?thesis by blast
  next
    assume "\<exists>x. fst ?run = Inl x \<and>
      aborted json_dumps json_loads schema user_task ?h x \<and> length ?h \<le> nat (1 + max_retries)"
    with e have a: "aborted json_dumps json_loads schema user_task ?h e" by auto
    then have "attempt_aborts json_loads schema (snd (last ?h)) = Some e"
      by (simp add: aborted_def)
    then have "\<not> isinstance_Exception e" by (rule attempt_aborts_SomeD)
    with a have ?interrupted by (simp add: aborted_def)
    then show ?thesis by blast
  qed
  have second: ?exhausted
    if h: "(\<exists>hint. schema_hint json_dumps schema = Inr hint) \<and>
      (\<forall>s p x. fst (generate s p) = Inl x \<longrightarrow> isinstance_Exception x) \<and>
      (\<forall>raw x. json_loads raw = Inl x \<longrightarrow> isinstance_Exception x) \<and>
      (\<forall>data x. model_validate schema data = Inl x \<longrightarrow> isinstance_Exception x) \<and>
      fst ?run = Inl e"
  proof -
    from h obtain hint where hint: "schema_hint json_dumps schema = Inr hint"
      and g: "\<And>s p x. fst (generate s p) = Inl x \<Longrightarrow> isinstance_Exception x"
      and l: "\<And>raw x. json_loads raw = Inl x \<Longrightarrow> isinstance_Exception x"
      and v: "\<And>data x. model_validate schema data = Inl x \<Longrightarrow> isinstance_Exception x"
      and e: "fst ?run = Inl e"
      by blast
    have g': "isinstance_Exception x" if "fst (recording generate s p) = Inl x" for s p x
      using that g [of "fst s" p x] by (cases s) (simp add: fst_recording)
    have "\<exists>m r le. e = StructuredGenerationError m r le (1 + max_retries)"
      using hint g' l v e by (rule raised_is_exhaustion)
    then have "isinstance_Exception e" by (auto simp: isinstance_Exception_def)
    with first [OF e] hint show ?thesis by auto
  qed
  from first second show ?thesis by blast
qed

theorem only_exhaustion_is_raised_witness:
  "fst (generate_structured (\<lambda>v. []) example_loads (recording garbage_client) (0, [])
          example_schema ''task'' 1) =
     Inl (StructuredGenerationError
            (''Failed to generate valid structured output after '' @ str_int 2 @ '' attempts'')
            ''garbage'' ''JSON parse error: Expecting value'' 2) \<and>
   (\<exists>hint. schema_hint (\<lambda>v. []) example_schema = Inr hint) \<and>
   length (snd (snd (generate_structured (\<lambda>v. []) example_loads (recording garbage_client)
                       (0, []) example_schema ''task'' 1))) = nat (1 + 1) \<and>
   failed example_loads example_schema
     (snd (snd (generate_structured (\<lambda>v. []) example_loads (recording garbage_client) (0, [])
                  example_schema ''task'' 1)))"
proof -
  have e: "fst (generate_structured (\<lambda>v. []) example_loads (recording garbage_client) (0, [])
          example_schema ''task'' 1) =
     Inl (StructuredGenerationError
            (''Failed to generate valid structured output after '' @ str_int 2 @ '' attempts'')
            ''garbage'' ''JSON parse error: Expecting value'' 2)"
    by (simp add: garbage_run)
  have hint: "\<exists>hint. schema_hint (\<lambda>v. []) example_schema = Inr hint"
    by (simp add: example_hint)
  have h: "(\<exists>hint. schema_hint (\<lambda>v. []) example_schema = Inr hint) \<and>
      (\<forall>s p x. fst (garbage_client s p) = Inl x \<longrightarrow> isinstance_Exception x) \<and>
      (\<forall>raw x. example_loads raw = Inl x \<longrightarrow> isinstance_Exception x) \<and>
      (\<forall>data x. model_validate example_schema data = Inl x \<longrightarrow> isinstance_Exception x) \<and>
      fst (generate_structured (\<lambda>v. []) example_loads (recording garbage_client) (0, [])
          example_schema ''task'' 1) =
     Inl (StructuredGenerationError
            (''Failed to generate valid structured output after '' @ str_int 2 @ '' attempts'')
            ''garbage'' ''JSON parse error: Expecting value'' 2)"
    using e hint example_raises by blast
  from only_exhaustion_is_raised [THEN conjunct2, rule_format, OF h] e hint
  show ?thesis by blast
qed

section \<open>Negative retry budgets\<close>

lemma upto_empty_budget: "max_retries < 0 \<Longrightarrow> [1..1 + max_retries] = []"
  by simp

text \<open>
  C10: for a negative \<open>max_retries\<close> the range of attempts is empty, so the client is never
  called (its history stays empty and its state is unchanged) and the call raises a
  \<^verbatim>\<open>StructuredGenerationError\<close> with \<open>attempts = 1 + max_retries\<close>, an empty
  \<open>last_raw_output\<close> and \<open>last_error = "Unknown error"\<close>.
\<close>

theorem negative_budget_raises_unknown_error:
  assumes "max_retries < 0"
  shows "\<exists>m. generate_structured json_dumps json_loads (recording generate) (c, []) schema
               user_task max_retries =
             (Inl (StructuredGenerationError m [] ''Unknown error'' (1 + max_retries)), (c, []))"
  using assms by (simp add: generate_structured_def Let_def)

theorem negative_budget_raises_unknown_error_witness:
  "(- 1 :: int) < 0 \<and>
   (\<exists>m. generate_structured (\<lambda>v. []) example_loads (recording garbage_client) (0, [])
          example_schema ''task'' (- 1) =
        (Inl (StructuredGenerationError m [] ''Unknown error'' (1 + - 1)), (0, [])))"
proof -
  have n: "(- 1 :: int) < 0" by simp
  from negative_budget_raises_unknown_error [OF n, of "\<lambda>v. []" example_loads garbage_client 0
      example_schema "''task''"] n
  show ?thesis by blast
qed

section \<open>Validation against \<^verbatim>\<open>SimpleResult\<close>\<close>






text \<open>
  C5, as claimed, fails: an object with valid values for the three fields and a fourth key
  \<open>extra\<close> is accepted, not rejected.
\<close>

theorem extra_field_counterexample:
  "model_validate (SimpleResult_schema (\<lambda>s. None) (\<lambda>d. []))
     (PDict [(''title'', PStr ''OK''), (''items'', PList [PStr ''x'']),
             (''confidence'', PFloat float_0_5), (''extra'', PInt 1)]) =
   Inr \<lparr>title = ''OK'', items = [''x''], confidence = float_0_5\<rparr>"
  by (simp add: SimpleResult_schema_def SimpleResult_validate_def validate_title_def
      validate_items_def validate_item_def validate_confidence_def in_unit_def within_unit_def
      float_0_5_def)

lemma map_of_extra: "k \<noteq> f \<Longrightarrow> map_of (d1 @ (k, v) # d2) f = map_of (d1 @ d2) f"
  by (simp add: map_of_append map_add_def split: option.splits)

text \<open>
  C5, amended: a key that is none of the three declared fields is ignored. Validation
  succeeds or fails as it does without the key, and yields the same instance.
\<close>

theorem extra_fields_are_ignored:
  assumes "k \<notin> {''title'', ''items'', ''confidence''}"
  shows "SimpleResult_validate str_as_float (PDict (d1 @ (k, v) # d2)) =
         SimpleResult_validate str_as_float (PDict (d1 @ d2))"
proof -
  have "map_of (d1 @ (k, v) # d2) f = map_of (d1 @ d2) f"
    if "f \<in> {''title'', ''items'', ''confidence''}" for f
    using that assms by (intro map_of_extra) auto
  then show ?thesis
    by (simp add: SimpleResult_validate_def)
qed

theorem extra_fields_are_ignored_witness:
  "''extra'' \<notin> {''title'', ''items'', ''confidence''} \<and>
   SimpleResult_validate (\<lambda>s. None)
     (PDict ([(''title'', PStr ''OK''), (''items'', PList [PStr ''x''])] @
             (''extra'', PInt 1) # [(''confidence'', PFloat float_0_5)])) =
   Some \<lparr>title = ''OK'', items = [''x''], confidence = float_0_5\<rparr>"
proof -
  have k: "''extra'' \<notin> {''title'', ''items'', ''confidence''}" by simp
  have "SimpleResult_validate (\<lambda>s. None)
          (PDict ([(''title'', PStr ''OK''), (''items'', PList [PStr ''x''])] @
                  [(''confidence'', PFloat float_0_5)])) =
        Some \<lparr>title = ''OK'', items = [''x''], confidence = float_0_5\<rparr>"
    by (simp add: SimpleResult_validate_def validate_title_def
        validate_items_def validate_item_def validate_confidence_def in_unit_def within_unit_def
        float_0_5_def)
  with k extra_fields_are_ignored [OF k, of "\<lambda>s. None"
      "[(''title'', PStr ''OK''), (''items'', PList [PStr ''x''])]" "PInt 1"
      "[(''confidence'', PFloat float_0_5)]"]
  show ?thesis by simp
qed

lemma missing_required_fails:
  "missing_required d \<Longrightarrow> SimpleResult_validate str_as_float (PDict d) = None"
  by (auto simp: missing_required_def SimpleResult_validate_def split: option.splits)

lemma validate_title_type: "type_of t \<noteq> TStr \<Longrightarrow> validate_title t = None"
  by (cases t) (simp_all add: validate_title_def type_of_def)

lemma validate_item_type: "type_of x \<noteq> TStr \<Longrightarrow> validate_item x = None"
  by (cases x) (simp_all add: validate_item_def type_of_def)

lemma validate_items_type:
  "(case i of PList xs \<Rightarrow> list_ex (\<lambda>x. type_of x \<noteq> TStr) xs | _ \<Rightarrow> True) \<Longrightarrow>
   validate_items i = None"
  by (cases i) (auto simp: validate_items_def list_ex_iff list_all_iff dest: validate_item_type)

lemma validate_confidence_type:
  "(case c of PStr s \<Rightarrow> str_as_float s = None | _ \<Rightarrow> type_of c \<in> {TNone, TList, TDict}) \<Longrightarrow>
   validate_confidence str_as_float c = None"
  by (cases c) (simp_all add: validate_confidence_def type_of_def)

lemma validate_confidence_range:
  "(case c of PFloat f \<Rightarrow> \<not> within_unit f | PInt n \<Rightarrow> n < 0 \<or> 1 < n
    | PStr s \<Rightarrow> (case str_as_float s of Some f \<Rightarrow> \<not> within_unit f | None \<Rightarrow> False)
    | _ \<Rightarrow> False) \<Longrightarrow>
   validate_confidence str_as_float c = None"
  by (cases c) (auto simp: validate_confidence_def in_unit_def within_unit_def split: option.splits)

lemma validate_field_fails:
  "map_of d ''title'' = Some t \<Longrightarrow> validate_title t = None \<Longrightarrow>
     SimpleResult_validate str_as_float (PDict d) = None"
  "map_of d ''items'' = Some i \<Longrightarrow> validate_items i = None \<Longrightarrow>
     SimpleResult_validate str_as_float (PDict d) = None"
  "map_of d ''confidence'' = Some c \<Longrightarrow> validate_confidence str_as_float c = None \<Longrightarrow>
     SimpleResult_validate str_as_float (PDict d) = None"
  by (auto simp: SimpleResult_validate_def split: option.splits)

lemma unaccepted_type_fails:
  assumes "unaccepted_type str_as_float d"
  shows "SimpleResult_validate str_as_float (PDict d) = None"
proof -
  consider
    (t) t where "map_of d ''title'' = Some t" "type_of t \<noteq> TStr"
  | (i) i where "map_of d ''items'' = Some i"
      "case i of PList xs \<Rightarrow> list_ex (\<lambda>x. type_of x \<noteq> TStr) xs | _ \<Rightarrow> True"
  | (c) c where "map_of d ''confidence'' = Some c"
      "case c of PStr s \<Rightarrow> str_as_float s = None | _ \<Rightarrow> type_of c \<in> {TNone, TList, TDict}"
    using assms unfolding unaccepted_type_def
    by (auto split: option.splits py.splits)
  then show ?thesis
  proof cases
    case t then show ?thesis by (auto intro: validate_field_fails(1) validate_title_type)
  next
    case i then show ?thesis by (auto intro: validate_field_fails(2) validate_items_type)
  next
    case c then show ?thesis by (auto intro: validate_field_fails(3) validate_confidence_type)
  qed
qed

lemma out_of_range_fails:
  assumes "out_of_range str_as_float d"
  shows "SimpleResult_validate str_as_float (PDict d) = None"
proof -
  obtain c where c: "map_of d ''confidence'' = Some c"
    using assms by (auto simp: out_of_range_def split: option.splits)
  with assms have "case c of PFloat f \<Rightarrow> \<not> within_unit f | PInt n \<Rightarrow> n < 0 \<or> 1 < n
    | PStr s \<Rightarrow> (case str_as_float s of Some f \<Rightarrow> \<not> within_unit f | None \<Rightarrow> False)
    | _ \<Rightarrow> False"
    by (simp add: out_of_range_def)
  then have "validate_confidence str_as_float c = None" by (rule validate_confidence_range)
  with c show ?thesis by (rule validate_field_fails(3))
qed

lemma attempt_body_validation_failure:
  assumes "attempt_prompt json_dumps user_task (SimpleResult_schema str_as_float error_text)
             attempt (last_raw st) = Inr prompt"
    and "generate (client st) prompt = (Inr raw, c)"
    and "json_loads raw = Inr data"
    and "SimpleResult_validate str_as_float data = None"
  shows "attempt_body json_dumps json_loads generate (SimpleResult_schema str_as_float error_text)
           user_task attempt st =
         Continue \<lparr>last_raw = raw, last_err = ''Schema validation error: '' @ error_text data,
                   client = c\<rparr>"
  using assms
  by (simp add: attempt_body_eq attempt_ok_def attempt_aborts_def failure_reason_def
      SimpleResult_schema_def isinstance_Exception_def)

lemma not_dict_fails: "type_of data \<noteq> TDict \<Longrightarrow> SimpleResult_validate str_as_float data = None"
  by (cases data) (simp_all add: SimpleResult_validate_def type_of_def)

text \<open>
  C7, as claimed, fails: a confidence of the wrong type is accepted when lax mode can
  convert it. The bool \<open>true\<close> is taken as 1.0, and the string \<open>"0.5"\<close> as 0.5 (the number
  parser being right on that string).
\<close>

theorem lax_confidence_counterexample:
  "type_of (PBool True) \<noteq> TFloat \<and>
   SimpleResult_validate (\<lambda>s. if s = ''0.5'' then Some float_0_5 else None)
     (PDict [(''title'', PStr ''Example''),
             (''items'', PList [PStr ''a'', PStr ''b'', PStr ''c'']),
             (''confidence'', PBool True)]) =
   Some \<lparr>title = ''Example'', items = [''a'', ''b'', ''c''], confidence = Finite 1\<rparr> \<and>
   type_of (PStr ''0.5'') \<noteq> TFloat \<and>
   SimpleResult_validate (\<lambda>s. if s = ''0.5'' then Some float_0_5 else None)
     (PDict [(''title'', PStr ''Example''),
             (''items'', PList [PStr ''a'', PStr ''b'', PStr ''c'']),
             (''confidence'', PStr ''0.5'')]) =
   Some \<lparr>title = ''Example'', items = [''a'', ''b'', ''c''], confidence = float_0_5\<rparr>"
  by (simp add: type_of_def SimpleResult_validate_def validate_title_def validate_items_def
      validate_item_def validate_confidence_def in_unit_def within_unit_def float_0_5_def)

text \<open>
  C7, amended: validation against \<^verbatim>\<open>SimpleResult\<close> fails for a value that is no dict, for a
  dict that lacks a required field, for a field of a type that its declaration does not
  take (a title that is no string; items that are no list of strings; a confidence that is
  null, a list, an object or a string that does not read as a number) and for a confidence
  outside 0 to 1. The example with \<open>"confidence": "high"\<close> fails, \<open>"high"\<close> being no number.
  When validation of a parsed output fails, the pass through the loop ends with
  \<^verbatim>\<open>continue\<close>: the raw text and the reason are recorded and the next attempt follows.
\<close>

theorem invalid_data_is_rejected:
  "(type_of data \<noteq> TDict \<longrightarrow> SimpleResult_validate str_as_float data = None) \<and>
   (missing_required d \<or> unaccepted_type str_as_float d \<or> out_of_range str_as_float d \<longrightarrow>
      SimpleResult_validate str_as_float (PDict d) = None) \<and>
   (str_as_float ''high'' = None \<longrightarrow>
      SimpleResult_validate str_as_float
        (PDict [(''title'', PStr ''Example''),
                (''items'', PList [PStr ''a'', PStr ''b'', PStr ''c'']),
                (''confidence'', PStr ''high'')]) = None) \<and>
   (attempt_prompt json_dumps user_task (SimpleResult_schema str_as_float error_text) attempt
      (last_raw st) = Inr prompt \<and>
    generate (client st) prompt = (Inr raw, c) \<and>
    json_loads raw = Inr data \<and> SimpleResult_validate str_as_float data = None \<longrightarrow>
      attempt_body json_dumps json_loads generate (SimpleResult_schema str_as_float error_text)
        user_task attempt st =
      Continue \<lparr>last_raw = raw, last_err = ''Schema validation error: '' @ error_text data,
                client = c\<rparr>)"
proof (intro conjI impI)
  show "SimpleResult_validate str_as_float data = None" if "type_of data \<noteq> TDict"
    using that by (rule not_dict_fails)
  show "SimpleResult_validate str_as_float (PDict d) = None"
    if "missing_required d \<or> unaccepted_type str_as_float d \<or> out_of_range str_as_float d"
    using that missing_required_fails unaccepted_type_fails out_of_range_fails by blast
  show "SimpleResult_validate str_as_float
        (PDict [(''title'', PStr ''Example''),
                (''items'', PList [PStr ''a'', PStr ''b'', PStr ''c'']),
                (''confidence'', PStr ''high'')]) = None"
    if "str_as_float ''high'' = None"
    using that by (intro unaccepted_type_fails) (simp add: unaccepted_type_def)
  show "attempt_body json_dumps json_loads generate (SimpleResult_schema str_as_float error_text)
        user_task attempt st =
      Continue \<lparr>last_raw = raw, last_err = ''Schema validation error: '' @ error_text data,
                client = c\<rparr>"
    if "attempt_prompt json_dumps user_task (SimpleResult_schema str_as_float error_text) attempt
        (last_raw st) = Inr prompt \<and>
      generate (client st) prompt = (Inr raw, c) \<and>
      json_loads raw = Inr data \<and> SimpleResult_validate str_as_float data = None"
    using that by (intro attempt_body_validation_failure [where prompt = prompt]) simp_all
qed

theorem invalid_data_is_rejected_witness:
  "type_of (PList []) \<noteq> TDict \<and>
   SimpleResult_validate (\<lambda>s. None) (PList []) = None \<and>
   unaccepted_type (\<lambda>s. None)
     [(''title'', PStr ''Example''), (''items'', PList [PStr ''a'', PStr ''b'', PStr ''c'']),
      (''confidence'', PStr ''high'')] \<and>
   SimpleResult_validate (\<lambda>s. None)
     (PDict [(''title'', PStr ''Example''),
             (''items'', PList [PStr ''a'', PStr ''b'', PStr ''c'']),
             (''confidence'', PStr ''high'')]) = None \<and>
   attempt_prompt (\<lambda>v. []) ''task'' example_schema 1 [] =
     Inr (prompt_head [] @ ''TASK:\<newline>'' @ ''task'' @ ''\<newline>'') \<and>
   attempt_body (\<lambda>v. []) (\<lambda>raw. Inr (PList [])) garbage_client example_schema ''task'' 1
     \<lparr>last_raw = [], last_err = [], client = 0\<rparr> =
   Continue \<lparr>last_raw = ''garbage'', last_err = ''Schema validation error: invalid'',
             client = Suc 0\<rparr>"
proof -
  let ?d = "[(''title'', PStr ''Example''), (''items'', PList [PStr ''a'', PStr ''b'', PStr ''c'']),
      (''confidence'', PStr ''high'')]"
  let ?p = "prompt_head [] @ ''TASK:\<newline>'' @ ''task'' @ ''\<newline>''"
  have t: "type_of (PList []) \<noteq> TDict" by (simp add: type_of_def)
  have u: "unaccepted_type (\<lambda>s. None) ?d" by (simp add: unaccepted_type_def)
  then have u': "missing_required ?d \<or> unaccepted_type (\<lambda>s. None) ?d \<or> out_of_range (\<lambda>s. None) ?d"
    by simp
  have h: "(\<lambda>s::string. None :: pyfloat option) ''high'' = None" by simp
  have p: "attempt_prompt (\<lambda>v. []) ''task'' example_schema 1 [] = Inr ?p"
    by (rule example_prompts)
  note inst = invalid_data_is_rejected [of "PList []" "\<lambda>s. None" ?d "\<lambda>v. []" "''task''"
      "\<lambda>data. ''invalid''" 1 "\<lparr>last_raw = [], last_err = [], client = 0\<rparr>" ?p garbage_client
      "''garbage''" "Suc 0" "\<lambda>raw. Inr (PList [])"]
  have v: "SimpleResult_validate (\<lambda>s. None) (PList []) = None"
    using inst [THEN conjunct1, rule_format, OF t] .
  have g: "attempt_prompt (\<lambda>v. []) ''task'' (SimpleResult_schema (\<lambda>s. None) (\<lambda>data. ''invalid''))
         1 (last_raw \<lparr>last_raw = [], last_err = [], client = 0::nat\<rparr>) = Inr ?p \<and>
     garbage_client (client \<lparr>last_raw = [], last_err = [], client = 0\<rparr>) ?p =
       (Inr ''garbage'', Suc 0) \<and>
     (\<lambda>raw. Inr (PList [])) ''garbage'' = (Inr (PList []) :: exn + py) \<and>
     SimpleResult_validate (\<lambda>s. None) (PList []) = None"
    using v p by (simp add: garbage_client_def example_schema_def)
  from inst [THEN conjunct2, THEN conjunct1, rule_format, OF u']
    inst [THEN conjunct2, THEN conjunct2, THEN conjunct1, rule_format, OF h]
    inst [THEN conjunct2, THEN conjunct2, THEN conjunct2, rule_format, OF g] t u v p
  show ?thesis by (simp add: example_schema_def)
qed

end
